theory Spec2Isabelle
  imports Main "HOL-Library.AList" "HOL-Library.Sublist"
begin

section \<open>JavaScript values as the bot sees them\<close>

text \<open>
  A JavaScript string is a sequence of UTF-16 code units; a code unit is modelled as a
  natural number. \<open>js\<close> embeds an ASCII literal of the source.
\<close>

type_synonym jsstring = "nat list"

definition js :: "string \<Rightarrow> jsstring" where
  "js s = map of_char s"

text \<open>
  The values that \<open>JSON.parse\<close> and the two client libraries hand to the program.
  Of a number the program only observes whether it is zero (\<open>ToBoolean\<close>) and its decimal
  rendering in a template literal; integer-valued numbers are modelled.
\<close>

datatype jsval =
    JUndefined
  | JNull
  | JBool bool
  | JNum int
  | JStr jsstring
  | JArr "jsval list"
  | JObj "(jsstring \<times> jsval) list"

text \<open>\<open>ToBoolean\<close>: what \<open>if (v)\<close>, \<open>!v\<close>, \<open>a && b\<close> and \<open>a || b\<close> test.\<close>

fun truthy :: "jsval \<Rightarrow> bool" where
  "truthy JUndefined = False"
| "truthy JNull = False"
| "truthy (JBool b) = b"
| "truthy (JNum n) = (n \<noteq> 0)"
| "truthy (JStr s) = (s \<noteq> [])"
| "truthy (JArr xs) = True"
| "truthy (JObj ps) = True"

fun nullish :: "jsval \<Rightarrow> bool" where
  "nullish JUndefined = True"
| "nullish JNull = True"
| "nullish v = False"

text \<open>
  \<open>v.name\<close> for a value \<open>v\<close> that is neither \<open>undefined\<close> nor \<open>null\<close>, and for the
  property names this program reads (\<open>thread_id\<close>, \<open>prompt_version\<close>, \<open>role\<close>,
  \<open>content\<close>, \<open>text\<close>, \<open>value\<close>, \<open>message\<close>, \<open>chat\<close>, \<open>from\<close>, \<open>id\<close>, \<open>type\<close>,
  \<open>message_id\<close>): none of them is inherited from a prototype, so only an object with
  that own property yields a value, and every other receiver yields \<open>undefined\<close>.
\<close>

fun get_prop :: "jsval \<Rightarrow> jsstring \<Rightarrow> jsval" where
  "get_prop (JObj ps) name = (case map_of ps name of Some v \<Rightarrow> v | None \<Rightarrow> JUndefined)"
| "get_prop v name = JUndefined"

text \<open>Optional chaining \<open>v?.name\<close>.\<close>

definition opt_prop :: "jsval \<Rightarrow> jsstring \<Rightarrow> jsval" where
  "opt_prop v name = (if nullish v then JUndefined else get_prop v name)"

text \<open>Optional element access \<open>v?.[0]\<close>.\<close>

fun opt_elem0 :: "jsval \<Rightarrow> jsval" where
  "opt_elem0 (JArr (x # xs)) = x"
| "opt_elem0 (JStr (c # cs)) = JStr [c]"
| "opt_elem0 (JObj ps) = get_prop (JObj ps) (js ''0'')"
| "opt_elem0 v = JUndefined"

subsection \<open>String methods\<close>

text \<open>
  \<open>String.prototype.trim\<close> removes the code units of WhiteSpace and LineTerminator
  from both ends: TAB, LF, VT, FF, CR, SP, NBSP, U+1680, U+2000 to U+200A, LS, PS, U+202F,
  U+205F, U+3000 and the byte order mark.
\<close>

definition is_ws :: "nat \<Rightarrow> bool" where
  "is_ws c \<longleftrightarrow>
     c = 9 \<or> c = 10 \<or> c = 11 \<or> c = 12 \<or> c = 13 \<or> c = 32 \<or> c = 160 \<or> c = 5760 \<or>
     (8192 \<le> c \<and> c \<le> 8202) \<or> c = 8232 \<or> c = 8233 \<or> c = 8239 \<or> c = 8287 \<or>
     c = 12288 \<or> c = 65279"

definition trim :: "jsstring \<Rightarrow> jsstring" where
  "trim s = rev (dropWhile is_ws (rev (dropWhile is_ws s)))"

text \<open>\<open>s.includes(p)\<close>: \<open>p\<close> starts at some position of \<open>s\<close>.\<close>

fun js_includes :: "jsstring \<Rightarrow> jsstring \<Rightarrow> bool" where
  "js_includes [] p = (p = [])"
| "js_includes (c # cs) p = (prefix p (c # cs) \<or> js_includes cs p)"

text \<open>
  \<open>s.replace(p, r)\<close> for a string pattern \<open>p\<close> and a replacement \<open>r\<close> without \<open>$\<close>
  patterns (the program passes the empty string): the first occurrence of \<open>p\<close> is
  replaced, and \<open>s\<close> is returned as it is when there is none.
\<close>

fun replace :: "jsstring \<Rightarrow> jsstring \<Rightarrow> jsstring \<Rightarrow> jsstring" where
  "replace [] p r = (if p = [] then r else [])"
| "replace (c # cs) p r =
     (if prefix p (c # cs) then r @ drop (length p) (c # cs) else c # replace cs p r)"

subsection \<open>Template literals\<close>

function decimal :: "nat \<Rightarrow> jsstring" where
  "decimal n = (if n < 10 then [48 + n] else decimal (n div 10) @ [48 + n mod 10])"
  by pat_completeness auto
termination
  by (relation "measure id") auto

declare decimal.simps [simp del]

text \<open>
  \<open>`${v}`\<close>. A number is rendered in plain decimal, as JavaScript does below \<open>10^21\<close>
  (every Telegram identifier is); an array joins its elements with commas, \<open>undefined\<close>
  and \<open>null\<close> elements giving the empty string.
\<close>

fun to_string :: "jsval \<Rightarrow> jsstring"
  and join_elems :: "jsval list \<Rightarrow> jsstring"
  and elem_string :: "jsval \<Rightarrow> jsstring" where
  "to_string JUndefined = js ''undefined''"
| "to_string JNull = js ''null''"
| "to_string (JBool b) = (if b then js ''true'' else js ''false'')"
| "to_string (JNum n) = (if n < 0 then js ''-'' @ decimal (nat (- n)) else decimal (nat n))"
| "to_string (JStr s) = s"
| "to_string (JArr xs) = join_elems xs"
| "to_string (JObj ps) = js ''[object Object]''"
| "join_elems [] = []"
| "join_elems [x] = elem_string x"
| "join_elems (x # y # ys) = elem_string x @ js '','' @ join_elems (y # ys)"
| "elem_string v = (if nullish v then [] else to_string v)"

section \<open>The process state and its collaborators\<close>

text \<open>
  An exception: a thrown \<open>Error\<close> or a rejected promise, with its message.
  \<open>TypeError\<close> is what the runtime throws for a property read on \<open>undefined\<close> or
  \<open>null\<close> and for a call of something that is not a function.
\<close>

datatype error = Error jsstring | TypeError

text \<open>
  The calls made on the assistant service: \<open>threads.create()\<close>,
  \<open>messages.create(threadId, {role, content})\<close>,
  \<open>runs.createAndPoll(threadId, {assistant_id})\<close> and
  \<open>messages.list(threadId, {limit})\<close>.
\<close>

datatype api_call =
    ThreadsCreate
  | MessagesCreate jsval jsstring jsstring
  | RunsCreateAndPoll jsval jsstring
  | MessagesList jsval nat

text \<open>
  The mutable state: the module variable \<open>threads\<close> (an object, as a list of its own
  properties in insertion order), the contents written to \<open>THREADS_FILE\<close>, the calls
  issued to the assistant service in the order they were issued, the status codes
  answered to the webhook caller, the \<open>bot.sendMessage\<close> calls (chat, text,
  \<open>reply_to_message_id\<close>) and what \<open>console.error\<close> received.
\<close>

record world =
  threads :: "(jsstring \<times> jsval) list"
  file_writes :: "(jsstring \<times> jsval) list list"
  api_log :: "api_call list"
  responses :: "nat list"
  sent :: "(jsval \<times> jsval \<times> jsval) list"
  logged :: "error list"

text \<open>
  What the collaborators answer while one update is processed: the \<open>id\<close> of the thread
  that \<open>threads.create\<close> resolves to, whether \<open>fs.writeFileSync\<close> throws, whether
  \<open>messages.create\<close> rejects, the \<open>status\<close> of the run that \<open>createAndPoll\<close> resolves
  to, the \<open>data\<close> of the page that \<open>messages.list\<close> resolves to, and whether
  \<open>bot.sendMessage\<close> rejects.
\<close>

record env =
  threads_create :: "error + jsstring"
  writeFileSync :: "error option"
  messages_create :: "error option"
  runs_createAndPoll :: "error + jsstring"
  messages_list :: "error + jsval list"
  sendMessage :: "error option"

text \<open>The environment variables the modelled functions read.\<close>

record config =
  ASSISTANT_ID :: jsstring
  BOT_USERNAME :: jsstring

text \<open>The destructuring default \<open>BOT_USERNAME = "SiharaPrakBot"\<close>.\<close>

definition BOT_USERNAME_of :: "jsstring option \<Rightarrow> jsstring" where
  "BOT_USERNAME_of v = (case v of None \<Rightarrow> js ''SiharaPrakBot'' | Some name \<Rightarrow> name)"

section \<open>Session store and resolver\<close>

text \<open>
  The file \<open>THREADS_FILE\<close>, and the start-up block that fills \<open>threads\<close>:
  \<open>JSON.parse\<close> is a parameter, \<open>None\<close> standing for its \<open>SyntaxError\<close>. Whatever
  value the parser yields becomes \<open>threads\<close>; the resolver below is modelled for the
  case that it is an object.
\<close>

datatype threads_file = Missing | Content jsstring

definition existsSync :: "threads_file \<Rightarrow> bool" where
  "existsSync f = (f \<noteq> Missing)"

text \<open>\<open>fs.readFileSync(THREADS_FILE, "utf8")\<close> throws when there is nothing to read.\<close>

definition readFileSync :: "threads_file \<Rightarrow> error + jsstring" where
  "readFileSync f = (case f of Content s \<Rightarrow> Inr s | Missing \<Rightarrow> Inl (Error (js ''ENOENT'')))"

text \<open>The \<open>try\<close> block covers the read and the parse; the \<open>catch\<close> resets \<open>threads\<close>.\<close>

definition load_threads :: "(jsstring \<Rightarrow> jsval option) \<Rightarrow> threads_file \<Rightarrow> jsval" where
  "load_threads JSON_parse f =
     (if existsSync f then
        (case readFileSync f of
           Inl err \<Rightarrow> JObj []
         | Inr s \<Rightarrow> (case JSON_parse s of Some v \<Rightarrow> v | None \<Rightarrow> JObj []))
      else JObj [])"

text \<open>The versioned program first removes the file when it exists, then loads.\<close>

definition unlink_if_exists :: "threads_file \<Rightarrow> threads_file" where
  "unlink_if_exists f = (if existsSync f then Missing else f)"

definition startup_threads :: "(jsstring \<Rightarrow> jsval option) \<Rightarrow> threads_file \<Rightarrow> jsval" where
  "startup_threads JSON_parse f = load_threads JSON_parse (unlink_if_exists f)"

text \<open>
  The state in which the versioned program processes its first update: \<open>threads\<close> as
  the start-up block left it and nothing written, called, answered, sent or logged yet.
  There is no such state when \<open>threads\<close> is not an object.
\<close>

definition startup_world :: "(jsstring \<Rightarrow> jsval option) \<Rightarrow> threads_file \<Rightarrow> world option" where
  "startup_world JSON_parse f =
     (case startup_threads JSON_parse f of
        JObj ps \<Rightarrow>
          Some \<lparr>threads = ps, file_writes = [], api_log = [], responses = [], sent = [],
                logged = []\<rparr>
      | _ \<Rightarrow> None)"

definition PROMPT_VERSION :: jsstring where
  "PROMPT_VERSION = js ''1.2''"

text \<open>\<open>saveThreads\<close>: the whole object is written; a failing write throws.\<close>

definition saveThreads :: "env \<Rightarrow> world \<Rightarrow> error + world" where
  "saveThreads e w =
     (case writeFileSync e of
        Some err \<Rightarrow> Inl err
      | None \<Rightarrow> Inr (w\<lparr>file_writes := file_writes w @ [threads w]\<rparr>))"

definition getThreadKey :: "jsval \<Rightarrow> jsval \<Rightarrow> jsstring" where
  "getThreadKey chatId userId = to_string chatId @ js '':'' @ to_string userId"

text \<open>
  \<open>threads[key]\<close>. The key contains a colon, so it names no inherited property and the
  lookup is a lookup among the own properties.
\<close>

definition threads_at :: "world \<Rightarrow> jsstring \<Rightarrow> jsval" where
  "threads_at w key = get_prop (JObj (threads w)) key"

text \<open>The record \<open>{ thread_id: id, prompt_version: PROMPT_VERSION }\<close>.\<close>

definition session_record :: "jsstring \<Rightarrow> jsval" where
  "session_record tid =
     JObj [(js ''thread_id'', JStr tid), (js ''prompt_version'', JStr PROMPT_VERSION)]"

text \<open>
  The condition under which \<open>getOrCreateThread\<close> of the versioned program returns the
  stored handle.
\<close>

definition reusable :: "jsval \<Rightarrow> bool" where
  "reusable existing \<longleftrightarrow>
     truthy existing \<and> truthy (get_prop existing (js ''thread_id'')) \<and>
     get_prop existing (js ''prompt_version'') = JStr PROMPT_VERSION"

text \<open>
  \<open>getOrCreateThread\<close> of the versioned program. The in-memory object is updated before
  \<open>saveThreads\<close> runs, so a failing write leaves the new record in memory.
\<close>

definition getOrCreateThread :: "env \<Rightarrow> world \<Rightarrow> jsval \<Rightarrow> jsval \<Rightarrow> (error + jsval) \<times> world" where
  "getOrCreateThread e w chatId userId =
     (let key = getThreadKey chatId userId;
          existing = threads_at w key
      in if reusable existing then (Inr (get_prop existing (js ''thread_id'')), w)
         else
           let w1 = w\<lparr>api_log := api_log w @ [ThreadsCreate]\<rparr> in
           case threads_create e of
             Inl err \<Rightarrow> (Inl err, w1)
           | Inr tid \<Rightarrow>
               let w2 = w1\<lparr>threads := AList.update key (session_record tid) (threads w1)\<rparr> in
               (case saveThreads e w2 of
                  Inl err \<Rightarrow> (Inl err, w2)
                | Inr w3 \<Rightarrow> (Inr (JStr tid), w3)))"

text \<open>
  \<open>getOrCreateThread\<close> of \<open>src/index.js\<close>: the store holds the bare thread id, and
  whatever truthy value is stored under the key is returned.
\<close>

definition index_getOrCreateThread ::
  "env \<Rightarrow> world \<Rightarrow> jsval \<Rightarrow> jsval \<Rightarrow> (error + jsval) \<times> world" where
  "index_getOrCreateThread e w chatId userId =
     (let key = getThreadKey chatId userId in
      if truthy (threads_at w key) then (Inr (threads_at w key), w)
      else
        let w1 = w\<lparr>api_log := api_log w @ [ThreadsCreate]\<rparr> in
        case threads_create e of
          Inl err \<Rightarrow> (Inl err, w1)
        | Inr tid \<Rightarrow>
            let w2 = w1\<lparr>threads := AList.update key (JStr tid) (threads w1)\<rparr> in
            (case saveThreads e w2 of
               Inl err \<Rightarrow> (Inl err, w2)
             | Inr w3 \<Rightarrow> (Inr (JStr tid), w3)))"

section \<open>Assistant conversation driver\<close>

text \<open>\<open>messages.data.find((m) => m.role === "assistant")\<close>.\<close>

fun find_assistant :: "jsval list \<Rightarrow> error + jsval" where
  "find_assistant [] = Inr JUndefined"
| "find_assistant (m # ms) =
     (if nullish m then Inl TypeError
      else if get_prop m (js ''role'') = JStr (js ''assistant'') then Inr m
      else find_assistant ms)"

text \<open>\<open>assistantMessage?.content?.[0]?.text?.value\<close>.\<close>

definition text_value :: "jsval \<Rightarrow> jsval" where
  "text_value assistantMessage =
     opt_prop (opt_prop (opt_elem0 (opt_prop assistantMessage (js ''content''))) (js ''text''))
       (js ''value'')"

text \<open>\<open>assistantMessage?.content?.[0]?.text?.value || fallback\<close>.\<close>

definition reply_of :: "jsstring \<Rightarrow> jsval \<Rightarrow> jsval" where
  "reply_of fallback assistantMessage =
     (if truthy (text_value assistantMessage) then text_value assistantMessage
      else JStr fallback)"

text \<open>
  \<open>runAssistant\<close>. The two programs differ in the resolver they call, in the message of
  the error thrown for a run that did not complete, and in the fallback reply.
\<close>

definition runAssistant_with ::
  "(env \<Rightarrow> world \<Rightarrow> jsval \<Rightarrow> jsval \<Rightarrow> (error + jsval) \<times> world) \<Rightarrow> jsstring \<Rightarrow> jsstring \<Rightarrow>
   config \<Rightarrow> env \<Rightarrow> world \<Rightarrow> jsval \<Rightarrow> jsval \<Rightarrow> jsstring \<Rightarrow> (error + jsval) \<times> world" where
  "runAssistant_with resolve failure fallback cfg e w chatId userId userText =
     (case resolve e w chatId userId of
        (Inl err, w1) \<Rightarrow> (Inl err, w1)
      | (Inr threadId, w1) \<Rightarrow>
          let w2 = w1\<lparr>api_log := api_log w1 @ [MessagesCreate threadId (js ''user'') userText]\<rparr> in
          (case messages_create e of
             Some err \<Rightarrow> (Inl err, w2)
           | None \<Rightarrow>
               let w3 = w2\<lparr>api_log := api_log w2 @ [RunsCreateAndPoll threadId (ASSISTANT_ID cfg)]\<rparr> in
               (case runs_createAndPoll e of
                  Inl err \<Rightarrow> (Inl err, w3)
                | Inr status \<Rightarrow>
                    if status \<noteq> js ''completed'' then (Inl (Error (failure @ status)), w3)
                    else
                      let w4 = w3\<lparr>api_log := api_log w3 @ [MessagesList threadId 5]\<rparr> in
                      (case messages_list e of
                         Inl err \<Rightarrow> (Inl err, w4)
                       | Inr data \<Rightarrow>
                           (case find_assistant data of
                              Inl err \<Rightarrow> (Inl err, w4)
                            | Inr assistantMessage \<Rightarrow>
                                (Inr (reply_of fallback assistantMessage), w4))))))"

definition runAssistant ::
  "config \<Rightarrow> env \<Rightarrow> world \<Rightarrow> jsval \<Rightarrow> jsval \<Rightarrow> jsstring \<Rightarrow> (error + jsval) \<times> world" where
  "runAssistant =
     runAssistant_with getOrCreateThread (js ''Assistant run failed: '') (js ''No response.'')"

definition index_runAssistant ::
  "config \<Rightarrow> env \<Rightarrow> world \<Rightarrow> jsval \<Rightarrow> jsval \<Rightarrow> jsstring \<Rightarrow> (error + jsval) \<times> world" where
  "index_runAssistant =
     runAssistant_with index_getOrCreateThread (js ''Assistant run failed with status: '')
       (js ''No response generated.'')"

section \<open>Inbound updates\<close>

text \<open>
  What the webhook handler decides before it calls \<open>runAssistant\<close>: to return silently,
  to throw, or to call \<open>runAssistant(chatId, userId, text)\<close> and answer to
  \<open>message.message_id\<close>.
\<close>

datatype decision = Skip | Throw error | Dispatch jsval jsval jsstring jsval

definition mention_of :: "config \<Rightarrow> jsstring" where
  "mention_of cfg = js ''@'' @ BOT_USERNAME cfg"

definition handle_update :: "config \<Rightarrow> jsval \<Rightarrow> decision" where
  "handle_update cfg body =
     (let message = opt_prop body (js ''message'') in
      if \<not> truthy (opt_prop message (js ''text'')) then Skip
      else
        let chat = get_prop message (js ''chat'') in
        if nullish chat then Throw TypeError
        else
          let chatId = get_prop chat (js ''id'');
              userId = opt_prop (get_prop message (js ''from'')) (js ''id'');
              chatType = get_prop chat (js ''type'')
          in case get_prop message (js ''text'') of
               JStr raw \<Rightarrow>
                 let text = trim raw;
                     isPrivate = (chatType = JStr (js ''private''));
                     mention = mention_of cfg
                 in if \<not> isPrivate \<and> \<not> js_includes text mention then Skip
                    else
                      Dispatch chatId userId
                        (if \<not> isPrivate then trim (replace text mention []) else text)
                        (get_prop message (js ''message_id''))
             | _ \<Rightarrow> Throw TypeError)"

text \<open>
  The handler of \<open>POST /webhook/BOT_SECRET\<close>: it answers 200 first; everything thrown
  afterwards is caught and logged.
\<close>

definition webhook_with ::
  "(config \<Rightarrow> env \<Rightarrow> world \<Rightarrow> jsval \<Rightarrow> jsval \<Rightarrow> jsstring \<Rightarrow> (error + jsval) \<times> world) \<Rightarrow>
   config \<Rightarrow> env \<Rightarrow> world \<Rightarrow> jsval \<Rightarrow> world" where
  "webhook_with run cfg e w body =
     (let w0 = w\<lparr>responses := responses w @ [200]\<rparr> in
      case handle_update cfg body of
        Skip \<Rightarrow> w0
      | Throw err \<Rightarrow> w0\<lparr>logged := logged w0 @ [err]\<rparr>
      | Dispatch chatId userId text message_id \<Rightarrow>
          (case run cfg e w0 chatId userId text of
             (Inl err, w1) \<Rightarrow> w1\<lparr>logged := logged w1 @ [err]\<rparr>
           | (Inr reply, w1) \<Rightarrow>
               let w2 = w1\<lparr>sent := sent w1 @ [(chatId, reply, message_id)]\<rparr> in
               (case sendMessage e of
                  Some err \<Rightarrow> w2\<lparr>logged := logged w2 @ [err]\<rparr>
                | None \<Rightarrow> w2)))"

definition webhook :: "config \<Rightarrow> env \<Rightarrow> world \<Rightarrow> jsval \<Rightarrow> world" where
  "webhook = webhook_with runAssistant"

definition index_webhook :: "config \<Rightarrow> env \<Rightarrow> world \<Rightarrow> jsval \<Rightarrow> world" where
  "index_webhook = webhook_with index_runAssistant"

section \<open>Module evaluation\<close>

text \<open>
  The top level of a module, reduced to its bindings: each statement with the line it
  starts at, the identifiers it evaluates when it runs (the body of a function or of an
  arrow function is not evaluated where it is written) and the names it initialises.
  Imports and function declarations are initialised before the first statement runs;
  a \<open>const\<close> or \<open>let\<close> name is usable only after its declaration has run, and reading
  any other identifier that is not a global throws a \<open>ReferenceError\<close>.
\<close>

datatype stmt =
    Import "string list"
  | FunctionDecl string
  | Declare "string list" "string list"
  | Eval "string list"
  | ExitUnlessConfigured "string list"
  | Listen "string list"

datatype module_result = Completed bool | Exited nat | ReferenceError string nat

fun hoisted :: "(nat \<times> stmt) list \<Rightarrow> string list" where
  "hoisted [] = []"
| "hoisted ((line, Import names) # rest) = names @ hoisted rest"
| "hoisted ((line, FunctionDecl name) # rest) = name # hoisted rest"
| "hoisted ((line, s) # rest) = hoisted rest"

definition unbound :: "string list \<Rightarrow> string list \<Rightarrow> string option" where
  "unbound scope reads = find (\<lambda>x. x \<notin> set scope) reads"

text \<open>
  \<open>configured\<close> says whether the five required environment variables are set; when
  they are not, the validation block calls \<open>process.exit(1)\<close>. The boolean carried along
  and returned by \<open>Completed\<close> says whether \<open>app.listen\<close> has run.
\<close>

fun run_stmts :: "bool \<Rightarrow> string list \<Rightarrow> bool \<Rightarrow> (nat \<times> stmt) list \<Rightarrow> module_result" where
  "run_stmts configured scope listening [] = Completed listening"
| "run_stmts configured scope listening ((line, Import names) # rest) =
     run_stmts configured scope listening rest"
| "run_stmts configured scope listening ((line, FunctionDecl name) # rest) =
     run_stmts configured scope listening rest"
| "run_stmts configured scope listening ((line, Declare names reads) # rest) =
     (case unbound scope reads of
        Some x \<Rightarrow> ReferenceError x line
      | None \<Rightarrow> run_stmts configured (names @ scope) listening rest)"
| "run_stmts configured scope listening ((line, Eval reads) # rest) =
     (case unbound scope reads of
        Some x \<Rightarrow> ReferenceError x line
      | None \<Rightarrow> run_stmts configured scope listening rest)"
| "run_stmts configured scope listening ((line, ExitUnlessConfigured reads) # rest) =
     (case unbound scope reads of
        Some x \<Rightarrow> ReferenceError x line
      | None \<Rightarrow> if configured then run_stmts configured scope listening rest else Exited 1)"
| "run_stmts configured scope listening ((line, Listen reads) # rest) =
     (case unbound scope reads of
        Some x \<Rightarrow> ReferenceError x line
      | None \<Rightarrow> run_stmts configured scope True rest)"

definition globals :: "string list" where
  "globals = [''process'', ''console'', ''JSON'', ''fetch'', ''setInterval'']"

definition run_module :: "bool \<Rightarrow> (nat \<times> stmt) list \<Rightarrow> module_result" where
  "run_module configured m = run_stmts configured (globals @ hoisted m) False m"

definition env_names :: "string list" where
  "env_names = [''TELEGRAM_TOKEN'', ''OPENAI_API_KEY'', ''ASSISTANT_ID'', ''BOT_SECRET'',
     ''BOT_USERNAME'', ''PORT'', ''RENDER_EXTERNAL_URL'']"

definition required_names :: "string list" where
  "required_names = [''TELEGRAM_TOKEN'', ''OPENAI_API_KEY'', ''ASSISTANT_ID'', ''BOT_SECRET'',
     ''RENDER_EXTERNAL_URL'']"

text \<open>The top level of \<open>src/index.js\<close>.\<close>

definition index_js :: "(nat \<times> stmt) list" where
  "index_js =
     [(3, Import [''express'', ''TelegramBot'', ''OpenAI'', ''axios'', ''fs'']),
      (10, Declare env_names [''process'']),
      (21, ExitUnlessConfigured required_names),
      (33, Declare [''app''] [''express'']),
      (34, Eval [''app'', ''express'']),
      (37, Declare [''bot''] [''TelegramBot'', ''TELEGRAM_TOKEN'']),
      (40, Declare [''openai''] [''OpenAI'', ''OPENAI_API_KEY'']),
      (43, Declare [''THREADS_FILE''] []),
      (46, Declare [''threads''] []),
      (47, Eval [''fs'', ''THREADS_FILE'', ''threads'', ''JSON'']),
      (56, FunctionDecl ''saveThreads''),
      (61, FunctionDecl ''getThreadKey''),
      (66, FunctionDecl ''getOrCreateThread''),
      (75, Eval [''console'', ''text'']),
      (77, FunctionDecl ''runAssistant''),
      (100, Declare [''WEBHOOK_URL''] [''RENDER_EXTERNAL_URL'', ''BOT_SECRET'']),
      (103, Eval [''fetch'', ''TELEGRAM_TOKEN'', ''JSON'', ''WEBHOOK_URL'']),
      (109, Eval [''app'']),
      (115, Eval [''app'', ''BOT_SECRET'']),
      (149, Eval [''app'']),
      (154, Listen [''app'', ''PORT'']),
      (159, Eval [''setInterval''])]"

text \<open>The top level of the versioned program.\<close>

definition versioned_js :: "(nat \<times> stmt) list" where
  "versioned_js =
     [(3, Import [''express'', ''TelegramBot'', ''OpenAI'', ''axios'', ''fs'']),
      (10, Declare [''PROMPT_VERSION''] []),
      (13, Declare [''THREADS_FILE''] []),
      (16, Eval [''fs'', ''THREADS_FILE'', ''console'']),
      (22, Declare env_names [''process'']),
      (32, ExitUnlessConfigured required_names),
      (44, Declare [''app''] [''express'']),
      (45, Eval [''app'', ''express'']),
      (48, Declare [''bot''] [''TelegramBot'', ''TELEGRAM_TOKEN'']),
      (51, Declare [''openai''] [''OpenAI'', ''OPENAI_API_KEY'']),
      (54, Declare [''threads''] []),
      (55, Eval [''fs'', ''THREADS_FILE'', ''threads'', ''JSON'']),
      (64, FunctionDecl ''saveThreads''),
      (69, FunctionDecl ''getThreadKey''),
      (74, FunctionDecl ''getOrCreateThread''),
      (98, FunctionDecl ''runAssistant''),
      (126, Declare [''WEBHOOK_URL''] [''RENDER_EXTERNAL_URL'', ''BOT_SECRET'']),
      (128, Eval [''fetch'', ''TELEGRAM_TOKEN'', ''JSON'', ''WEBHOOK_URL'']),
      (134, Eval [''app'', ''BOT_SECRET'']),
      (165, Eval [''app'']),
      (169, Listen [''app'', ''PORT'']),
      (174, Eval [''setInterval''])]"

section \<open>Sample inputs\<close>

definition sample_cfg :: config where
  "sample_cfg = \<lparr>ASSISTANT_ID = js ''asst_1'', BOT_USERNAME = js ''BotName''\<rparr>"

definition sample_env :: env where
  "sample_env =
     \<lparr>threads_create = Inr (js ''thread_new''), writeFileSync = None, messages_create = None,
      runs_createAndPoll = Inr (js ''completed''), messages_list = Inr [], sendMessage = None\<rparr>"

definition world_of :: "(jsstring \<times> jsval) list \<Rightarrow> world" where
  "world_of ts =
     \<lparr>threads = ts, file_writes = [], api_log = [], responses = [], sent = [], logged = []\<rparr>"

definition sample_key :: jsstring where
  "sample_key = getThreadKey (JNum 42) (JNum 7)"

text \<open>An update with a text message from user 7 in chat 42.\<close>

definition telegram_update :: "jsstring \<Rightarrow> jsstring \<Rightarrow> jsval" where
  "telegram_update chat_type text =
     JObj [(js ''message'',
        JObj [(js ''message_id'', JNum 1),
              (js ''from'', JObj [(js ''id'', JNum 7)]),
              (js ''chat'', JObj [(js ''id'', JNum 42), (js ''type'', JStr chat_type)]),
              (js ''text'', JStr text)])]"

text \<open>
  The state the unversioned program leaves after it has resolved chat 42 and user 7 for
  the first time, the service having issued \<open>thread_old\<close>.
\<close>

definition legacy_world :: world where
  "legacy_world =
     snd (index_getOrCreateThread (sample_env\<lparr>threads_create := Inr (js ''thread_old'')\<rparr>)
            (world_of []) (JNum 42) (JNum 7))"

text \<open>
  A store file written by the unversioned program, \<open>{"42:7":"thread_old"}\<close>, and a
  parser that reads it.
\<close>

definition legacy_content :: jsstring where
  "legacy_content =
     js ''{'' @ [34] @ js ''42:7'' @ [34] @ js '':'' @ [34] @ js ''thread_old'' @ [34] @ js ''}''"

definition legacy_parse :: "jsstring \<Rightarrow> jsval option" where
  "legacy_parse s =
     (if s = legacy_content then Some (JObj [(sample_key, JStr (js ''thread_old''))]) else None)"

text \<open>A parser that accepts the empty object only.\<close>

definition sample_parse :: "jsstring \<Rightarrow> jsval option" where
  "sample_parse s = (if s = js ''{}'' then Some (JObj []) else None)"

section \<open>Facts about the string methods\<close>

lemma js_eq_iff [simp]: "js a = js b \<longleftrightarrow> a = b"
  by (simp add: js_def inj_map_eq_map [OF inj_of_char])

lemma js_Nil_iff [simp]: "js a = [] \<longleftrightarrow> a = []"
  by (simp add: js_def)

subsection \<open>Trimming\<close>

lemma trim_decomp:
  "\<exists>x y. s = x @ trim s @ y \<and> (\<forall>c\<in>set x. is_ws c) \<and> (\<forall>c\<in>set y. is_ws c)"
proof -
  let ?u = "dropWhile is_ws s"
  have s: "s = takeWhile is_ws s @ ?u" by simp
  have "?u = rev (takeWhile is_ws (rev ?u) @ dropWhile is_ws (rev ?u))"
    by (simp only: takeWhile_dropWhile_id rev_rev_ident)
  then have u: "?u = trim s @ rev (takeWhile is_ws (rev ?u))"
    by (simp only: rev_append trim_def)
  have "s = takeWhile is_ws s @ trim s @ rev (takeWhile is_ws (rev ?u))"
    using s u by metis
  moreover have "\<forall>c\<in>set (takeWhile is_ws s). is_ws c"
    by (meson set_takeWhileD)
  moreover have "\<forall>c\<in>set (rev (takeWhile is_ws (rev ?u))). is_ws c"
    by (metis set_rev set_takeWhileD)
  ultimately show ?thesis by blast
qed

lemma trim_edges:
  assumes "trim s \<noteq> []"
  shows "\<not> is_ws (hd (trim s)) \<and> \<not> is_ws (last (trim s))"
proof -
  let ?u = "dropWhile is_ws s"
  let ?v = "dropWhile is_ws (rev ?u)"
  from assms have v: "?v \<noteq> []" by (simp add: trim_def)
  have "?u = [] \<Longrightarrow> ?v = []" by (simp only: rev.simps dropWhile.simps)
  with v have u: "?u \<noteq> []" by blast
  have "last (trim s) = hd ?v" using v by (simp add: trim_def last_rev)
  moreover have "\<not> is_ws (hd ?v)" using v by (rule hd_dropWhile)
  moreover have "hd (trim s) = last ?v" using v by (simp add: trim_def hd_rev)
  moreover have "last ?v = last (rev ?u)"
    using v by (metis last_appendR takeWhile_dropWhile_id)
  moreover have "last (rev ?u) = hd ?u" using u by (simp add: last_rev)
  moreover have "\<not> is_ws (hd ?u)" using u by (rule hd_dropWhile)
  ultimately show ?thesis by simp
qed

lemma trim_unique:
  assumes s: "s = x @ t @ y"
    and x: "\<forall>c\<in>set x. is_ws c" and y: "\<forall>c\<in>set y. is_ws c"
    and t: "t = [] \<or> (\<not> is_ws (hd t) \<and> \<not> is_ws (last t))"
  shows "trim s = t"
proof (cases "t = []")
  case True
  with s x y have "\<forall>c\<in>set s. is_ws c" by auto
  then have "dropWhile is_ws s = []" by simp
  then show ?thesis by (simp only: trim_def True rev.simps dropWhile.simps)
next
  case False
  with t have hd: "\<not> is_ws (hd t)" and lst: "\<not> is_ws (last t)" by auto
  have "dropWhile is_ws s = dropWhile is_ws (t @ y)"
    using s x by (simp add: dropWhile_append)
  also have "\<dots> = t @ y"
    using False hd by (cases t) auto
  finally have 1: "dropWhile is_ws s = t @ y" .
  have "dropWhile is_ws (rev (t @ y)) = dropWhile is_ws (rev t)"
    using y by (simp add: dropWhile_append)
  also have "\<dots> = rev t"
    using False lst by (cases "rev t") (auto simp: last_rev [symmetric] hd_rev)
  finally show ?thesis using 1 by (simp add: trim_def)
qed

lemma trim_id: "s = [] \<or> (\<not> is_ws (hd s) \<and> \<not> is_ws (last s)) \<Longrightarrow> trim s = s"
  using trim_unique [of s "[]" s "[]"] by simp

lemma trim_ws_context:
  assumes "\<forall>c\<in>set x. is_ws c" "\<forall>c\<in>set y. is_ws c"
  shows "trim (x @ s @ y) = trim s"
proof -
  obtain p q where d: "s = p @ trim s @ q" "\<forall>c\<in>set p. is_ws c" "\<forall>c\<in>set q. is_ws c"
    using trim_decomp by blast
  have e: "trim s = [] \<or> (\<not> is_ws (hd (trim s)) \<and> \<not> is_ws (last (trim s)))"
    using trim_edges by blast
  have "x @ s @ y = (x @ p) @ trim s @ (q @ y)"
    using d(1) by (metis append.assoc)
  then show ?thesis
    using trim_unique [of "x @ s @ y" "x @ p" "trim s" "q @ y"] assms d(2,3) e by auto
qed

subsection \<open>Occurrences of a pattern\<close>

lemma js_includes_iff: "js_includes s p \<longleftrightarrow> (\<exists>a b. s = a @ p @ b)"
proof (induction s)
  case Nil
  then show ?case by auto
next
  case (Cons c cs)
  show ?case
  proof
    assume "js_includes (c # cs) p"
    then consider "prefix p (c # cs)" | "js_includes cs p" by auto
    then show "\<exists>a b. c # cs = a @ p @ b"
    proof cases
      case 1
      then obtain b where "c # cs = p @ b" by (auto simp: prefix_def)
      then have "c # cs = [] @ p @ b" by simp
      then show ?thesis by blast
    next
      case 2
      with Cons.IH obtain a b where "cs = a @ p @ b" by blast
      then have "c # cs = (c # a) @ p @ b" by simp
      then show ?thesis by blast
    qed
  next
    assume "\<exists>a b. c # cs = a @ p @ b"
    then obtain a b where ab: "c # cs = a @ p @ b" by blast
    show "js_includes (c # cs) p"
    proof (cases a)
      case Nil
      with ab have "prefix p (c # cs)" by (simp add: prefix_def)
      then show ?thesis by simp
    next
      case (Cons d ds)
      with ab have "cs = ds @ p @ b" by simp
      with Cons.IH have "js_includes cs p" by blast
      then show ?thesis by simp
    qed
  qed
qed

lemma replace_absent: "\<not> js_includes s p \<Longrightarrow> replace s p r = s"
  by (induction s) auto

lemma replace_first:
  assumes "\<forall>a' b'. a @ p @ b = a' @ p @ b' \<longrightarrow> length a \<le> length a'"
  shows "replace (a @ p @ b) p r = a @ r @ b"
  using assms
proof (induction a)
  case Nil
  show ?case
  proof (cases "p @ b")
    case Nil
    then show ?thesis by simp
  next
    case (Cons d ds)
    have pre: "prefix p (d # ds)" by (metis Cons prefixI)
    have "drop (length p) (d # ds) = b" by (metis Cons append_eq_conv_conj)
    with pre have "replace (d # ds) p r = r @ b" by simp
    with Cons show ?thesis by simp
  qed
next
  case (Cons c cs)
  have "\<not> prefix p (c # cs @ p @ b)"
  proof
    assume "prefix p (c # cs @ p @ b)"
    then obtain b' where "c # cs @ p @ b = [] @ p @ b'" by (auto simp: prefix_def)
    with Cons.prems have "length (c # cs) \<le> length ([]::nat list)"
      by (metis append_Cons)
    then show False by simp
  qed
  moreover have "\<forall>a' b'. cs @ p @ b = a' @ p @ b' \<longrightarrow> length cs \<le> length a'"
  proof (intro allI impI)
    fix a' b' assume "cs @ p @ b = a' @ p @ b'"
    then have "(c # cs) @ p @ b = (c # a') @ p @ b'" by simp
    with Cons.prems have "length (c # cs) \<le> length (c # a')" by blast
    then show "length cs \<le> length a'" by simp
  qed
  ultimately show ?case using Cons.IH by simp
qed

section \<open>The session resolver\<close>

lemma threads_at_eq:
  "threads w' = AList.update k v al \<Longrightarrow> threads_at w' k = v"
  by (simp add: threads_at_def update_conv')

lemma startup_world_empty: "startup_world JSON_parse f = Some (world_of [])"
  by (simp add: startup_world_def startup_threads_def unlink_if_exists_def existsSync_def
      load_threads_def readFileSync_def world_of_def)

lemma threads_at_record:
  "threads w' = AList.update k (session_record tid) al \<Longrightarrow>
   threads_at w' k = JObj [(js ''thread_id'', JStr tid), (js ''prompt_version'', JStr PROMPT_VERSION)]"
  by (simp add: threads_at_def update_conv' session_record_def)

lemma reusable_session_record: "reusable (session_record tid) \<longleftrightarrow> tid \<noteq> []"
  by (simp add: reusable_def session_record_def)

lemma thread_id_session_record: "get_prop (session_record tid) (js ''thread_id'') = JStr tid"
  by (simp add: session_record_def)

lemma not_reusable_bare: "\<not> reusable (JStr s)"
  by (simp add: reusable_def)

lemma getOrCreateThread_hit:
  "reusable (threads_at w (getThreadKey chatId userId)) \<Longrightarrow>
   getOrCreateThread e w chatId userId =
     (Inr (get_prop (threads_at w (getThreadKey chatId userId)) (js ''thread_id'')), w)"
  by (simp add: getOrCreateThread_def Let_def)

lemma getOrCreateThread_miss:
  "\<not> reusable (threads_at w (getThreadKey chatId userId)) \<Longrightarrow>
   getOrCreateThread e w chatId userId =
     (let w1 = w\<lparr>api_log := api_log w @ [ThreadsCreate]\<rparr> in
      case threads_create e of
        Inl err \<Rightarrow> (Inl err, w1)
      | Inr tid \<Rightarrow>
          let w2 = w1\<lparr>threads := AList.update (getThreadKey chatId userId) (session_record tid) (threads w)\<rparr> in
          (case writeFileSync e of
             Some err \<Rightarrow> (Inl err, w2)
           | None \<Rightarrow> (Inr (JStr tid), w2\<lparr>file_writes := file_writes w @ [threads w2]\<rparr>)))"
  by (simp add: getOrCreateThread_def Let_def saveThreads_def split: sum.splits option.splits)

text \<open>
  C1. \<open>getOrCreateThread\<close> returns the stored handle without a call to the assistant
  service only when the record stored under the key carries the active
  \<open>PROMPT_VERSION\<close>, and then the state is left as it was; it does so whenever such a
  record has a truthy \<open>thread_id\<close>. When the stored value has
  no \<open>prompt_version\<close> or another one, or when nothing is stored, \<open>threads.create\<close> is
  called; the thread it yields is stored under the key with the active version, the
  store is written, and that thread is returned. Every handle returned is either the
  \<open>thread_id\<close> of a record with the active version or the thread just created.
\<close>

theorem getOrCreateThread_version_check:
  assumes run: "getOrCreateThread e w chatId userId = (r, w')"
    and ex: "existing = threads_at w (getThreadKey chatId userId)"
  shows "(\<forall>h. r = Inr h \<and> api_log w' = api_log w \<longrightarrow>
            get_prop existing (js ''prompt_version'') = JStr PROMPT_VERSION \<and>
            h = get_prop existing (js ''thread_id'') \<and> w' = w) \<and>
         (get_prop existing (js ''prompt_version'') = JStr PROMPT_VERSION \<and>
          truthy (get_prop existing (js ''thread_id'')) \<longrightarrow>
            r = Inr (get_prop existing (js ''thread_id'')) \<and> w' = w) \<and>
         (get_prop existing (js ''prompt_version'') \<noteq> JStr PROMPT_VERSION \<longrightarrow>
            api_log w' = api_log w @ [ThreadsCreate] \<and>
            (\<forall>tid. threads_create e = Inr tid \<longrightarrow>
               threads_at w' (getThreadKey chatId userId) =
                 JObj [(js ''thread_id'', JStr tid), (js ''prompt_version'', JStr PROMPT_VERSION)] \<and>
               get_prop (threads_at w' (getThreadKey chatId userId)) (js ''thread_id'') = JStr tid \<and>
               get_prop (threads_at w' (getThreadKey chatId userId)) (js ''prompt_version'') =
                 JStr PROMPT_VERSION \<and>
               (writeFileSync e = None \<longrightarrow>
                  r = Inr (JStr tid) \<and> file_writes w' = file_writes w @ [threads w']))) \<and>
         (\<forall>h. r = Inr h \<longrightarrow>
            (get_prop existing (js ''prompt_version'') = JStr PROMPT_VERSION \<and>
             h = get_prop existing (js ''thread_id'') \<and> api_log w' = api_log w) \<or>
            (\<exists>tid. threads_create e = Inr tid \<and> h = JStr tid \<and>
                   api_log w' = api_log w @ [ThreadsCreate] \<and>
                   threads_at w' (getThreadKey chatId userId) =
                     JObj [(js ''thread_id'', JStr tid),
                           (js ''prompt_version'', JStr PROMPT_VERSION)])) \<and>
         PROMPT_VERSION = js ''1.2''"
proof (cases "reusable existing")
  case True
  with run ex have "r = Inr (get_prop existing (js ''thread_id''))" "w' = w"
    by (auto simp: getOrCreateThread_hit)
  with True show ?thesis
    by (simp add: reusable_def PROMPT_VERSION_def)
next
  case False
  then have "\<not> (get_prop existing (js ''prompt_version'') = JStr PROMPT_VERSION \<and>
      truthy (get_prop existing (js ''thread_id'')))"
    by (cases existing) (auto simp: reusable_def)
  note stale = this
  note miss = getOrCreateThread_miss [of w chatId userId e, unfolded Let_def]
  have pv: "PROMPT_VERSION = js ''1.2''" by (simp add: PROMPT_VERSION_def)
  show ?thesis
  proof (cases "threads_create e")
    case (Inl err)
    with False stale run ex miss pv show ?thesis by auto
  next
    case (Inr tid)
    show ?thesis
    proof (cases "writeFileSync e")
      case None
      with Inr False stale run ex miss pv show ?thesis
        by (auto simp: threads_at_record)
    next
      case (Some err)
      with Inr False stale run ex miss pv show ?thesis
        by (auto simp: threads_at_record)
    qed
  qed
qed

theorem getOrCreateThread_version_check_witness:
  "get_prop (threads_at
       (world_of [(sample_key, JObj [(js ''thread_id'', JStr (js ''thread_old'')),
                                    (js ''prompt_version'', JStr (js ''1.1''))])])
       (getThreadKey (JNum 42) (JNum 7))) (js ''prompt_version'') \<noteq> JStr PROMPT_VERSION \<and>
   threads_create sample_env = Inr (js ''thread_new'') \<and> writeFileSync sample_env = None \<and>
   fst (getOrCreateThread sample_env
       (world_of [(sample_key, JObj [(js ''thread_id'', JStr (js ''thread_old'')),
                                    (js ''prompt_version'', JStr (js ''1.1''))])])
       (JNum 42) (JNum 7)) = Inr (JStr (js ''thread_new'')) \<and>
   threads_at (snd (getOrCreateThread sample_env
       (world_of [(sample_key, JObj [(js ''thread_id'', JStr (js ''thread_old'')),
                                    (js ''prompt_version'', JStr (js ''1.1''))])])
       (JNum 42) (JNum 7))) (getThreadKey (JNum 42) (JNum 7)) =
     JObj [(js ''thread_id'', JStr (js ''thread_new'')), (js ''prompt_version'', JStr (js ''1.2''))]"
proof -
  let ?w = "world_of [(sample_key, JObj [(js ''thread_id'', JStr (js ''thread_old'')),
                                    (js ''prompt_version'', JStr (js ''1.1''))])]"
  let ?run = "getOrCreateThread sample_env ?w (JNum 42) (JNum 7)"
  have stale: "get_prop (threads_at ?w (getThreadKey (JNum 42) (JNum 7))) (js ''prompt_version'')
      \<noteq> JStr PROMPT_VERSION"
    by (simp add: threads_at_def world_of_def sample_key_def PROMPT_VERSION_def)
  have env: "threads_create sample_env = Inr (js ''thread_new'')" "writeFileSync sample_env = None"
    by (simp_all add: sample_env_def)
  have "?run = (fst ?run, snd ?run)" by simp
  note gen = getOrCreateThread_version_check [OF this refl]
  have pv: "PROMPT_VERSION = js ''1.2''" by (simp add: PROMPT_VERSION_def)
  from gen have "get_prop (threads_at ?w (getThreadKey (JNum 42) (JNum 7))) (js ''prompt_version'')
      \<noteq> JStr PROMPT_VERSION \<longrightarrow>
    (\<forall>tid. threads_create sample_env = Inr tid \<longrightarrow>
       threads_at (snd ?run) (getThreadKey (JNum 42) (JNum 7)) =
         JObj [(js ''thread_id'', JStr tid), (js ''prompt_version'', JStr PROMPT_VERSION)] \<and>
       (writeFileSync sample_env = None \<longrightarrow> fst ?run = Inr (JStr tid)))"
    by blast
  with stale env have "threads_at (snd ?run) (getThreadKey (JNum 42) (JNum 7)) =
         JObj [(js ''thread_id'', JStr (js ''thread_new'')),
               (js ''prompt_version'', JStr PROMPT_VERSION)]"
    "fst ?run = Inr (JStr (js ''thread_new''))"
    by blast+
  with stale env show ?thesis unfolding pv by blast
qed

lemma index_getOrCreateThread_stores_bare:
  assumes "\<not> truthy (threads_at w (getThreadKey chatId userId))"
    and "threads_create e = Inr tid"
  shows "threads_at (snd (index_getOrCreateThread e w chatId userId)) (getThreadKey chatId userId)
           = JStr tid"
  using assms
  by (auto simp: index_getOrCreateThread_def Let_def saveThreads_def threads_at_eq
           split: option.splits)

lemma index_getOrCreateThread_reuses:
  "truthy (threads_at w (getThreadKey chatId userId)) \<Longrightarrow>
   index_getOrCreateThread e w chatId userId = (Inr (threads_at w (getThreadKey chatId userId)), w)"
  by (simp add: index_getOrCreateThread_def Let_def)

text \<open>
  C2. A bare handle string stored under the key, as the unversioned program wrote it,
  is never reused, whether it sits in \<open>threads\<close> or in the store file the program
  started from (the file is removed at start-up, so the key has no entry until it is
  resolved):
  \<open>getOrCreateThread\<close> calls \<open>threads.create\<close>, puts the record
  \<open>{thread_id, prompt_version}\<close> with the new thread and the active version under the
  key, writes the store, and returns the new thread.
\<close>

theorem bare_handle_is_stale:
  assumes legacy:
      "threads_at w (getThreadKey chatId userId) = JStr s \<or>
       (JSON_parse content = Some (JObj ps) \<and>
        map_of ps (getThreadKey chatId userId) = Some (JStr s) \<and>
        startup_world JSON_parse (Content content) = Some w_start \<and>
        threads_at w (getThreadKey chatId userId) =
          threads_at w_start (getThreadKey chatId userId))"
    and run: "getOrCreateThread e w chatId userId = (r, w')"
  shows "api_log w' = api_log w @ [ThreadsCreate] \<and>
         (\<forall>tid. threads_create e = Inr tid \<longrightarrow>
            threads_at w' (getThreadKey chatId userId) =
              JObj [(js ''thread_id'', JStr tid), (js ''prompt_version'', JStr PROMPT_VERSION)] \<and>
            (writeFileSync e = None \<longrightarrow>
               r = Inr (JStr tid) \<and> file_writes w' = file_writes w @ [threads w'])) \<and>
         (threads_create e \<noteq> Inr s \<longrightarrow> r \<noteq> Inr (JStr s))"
proof -
  from legacy have stale: "\<not> reusable (threads_at w (getThreadKey chatId userId))"
  proof
    assume "threads_at w (getThreadKey chatId userId) = JStr s"
    then show ?thesis by (simp add: not_reusable_bare)
  next
    assume "JSON_parse content = Some (JObj ps) \<and>
        map_of ps (getThreadKey chatId userId) = Some (JStr s) \<and>
        startup_world JSON_parse (Content content) = Some w_start \<and>
        threads_at w (getThreadKey chatId userId) =
          threads_at w_start (getThreadKey chatId userId)"
    then have "w_start = world_of []"
      and "threads_at w (getThreadKey chatId userId) =
          threads_at w_start (getThreadKey chatId userId)"
      by (simp_all add: startup_world_empty)
    then have "threads_at w (getThreadKey chatId userId) = JUndefined"
      by (simp add: threads_at_def world_of_def)
    then show ?thesis by (simp add: reusable_def)
  qed
  note miss = getOrCreateThread_miss [OF stale, of e, unfolded Let_def]
  show ?thesis
  proof (cases "threads_create e")
    case (Inl err)
    with run miss show ?thesis by auto
  next
    case (Inr tid)
    show ?thesis
    proof (cases "writeFileSync e")
      case None
      with Inr run miss show ?thesis by (auto simp: threads_at_record)
    next
      case (Some err)
      with Inr run miss show ?thesis by (auto simp: threads_at_record)
    qed
  qed
qed

theorem bare_handle_is_stale_witness:
  "threads_at legacy_world (getThreadKey (JNum 42) (JNum 7)) = JStr (js ''thread_old'') \<and>
   threads_create sample_env = Inr (js ''thread_new'') \<and>
   threads_create sample_env \<noteq> Inr (js ''thread_old'') \<and>
   writeFileSync sample_env = None \<and>
   fst (getOrCreateThread sample_env legacy_world (JNum 42) (JNum 7)) =
     Inr (JStr (js ''thread_new'')) \<and>
   fst (getOrCreateThread sample_env legacy_world (JNum 42) (JNum 7)) \<noteq>
     Inr (JStr (js ''thread_old'')) \<and>
   threads_at (snd (getOrCreateThread sample_env legacy_world (JNum 42) (JNum 7)))
     (getThreadKey (JNum 42) (JNum 7)) =
     JObj [(js ''thread_id'', JStr (js ''thread_new'')), (js ''prompt_version'', JStr (js ''1.2''))] \<and>
   legacy_parse legacy_content = Some (JObj [(sample_key, JStr (js ''thread_old''))]) \<and>
   map_of [(sample_key, JStr (js ''thread_old''))] (getThreadKey (JNum 42) (JNum 7)) =
     Some (JStr (js ''thread_old'')) \<and>
   startup_world legacy_parse (Content legacy_content) = Some (world_of []) \<and>
   getOrCreateThread sample_env (world_of []) (JNum 42) (JNum 7) =
     (Inr (JStr (js ''thread_new'')),
      \<lparr>threads = [(sample_key, JObj [(js ''thread_id'', JStr (js ''thread_new'')),
                                     (js ''prompt_version'', JStr (js ''1.2''))])],
       file_writes = [[(sample_key, JObj [(js ''thread_id'', JStr (js ''thread_new'')),
                                          (js ''prompt_version'', JStr (js ''1.2''))])]],
       api_log = [ThreadsCreate], responses = [], sent = [], logged = []\<rparr>)"
proof -
  let ?run = "getOrCreateThread sample_env legacy_world (JNum 42) (JNum 7)"
  let ?boot = "getOrCreateThread sample_env (world_of []) (JNum 42) (JNum 7)"
  have bare: "threads_at legacy_world (getThreadKey (JNum 42) (JNum 7)) = JStr (js ''thread_old'')"
    unfolding legacy_world_def
    by (rule index_getOrCreateThread_stores_bare)
      (simp_all add: threads_at_def world_of_def)
  have env: "threads_create sample_env = Inr (js ''thread_new'')"
    "threads_create sample_env \<noteq> Inr (js ''thread_old'')" "writeFileSync sample_env = None"
    by (simp_all add: sample_env_def)
  have "?run = (fst ?run, snd ?run)" by simp
  note mem = bare_handle_is_stale [OF disjI1 [OF bare] this]
  have p: "legacy_parse legacy_content = Some (JObj [(sample_key, JStr (js ''thread_old''))])"
    by (simp add: legacy_parse_def)
  have m: "map_of [(sample_key, JStr (js ''thread_old''))] (getThreadKey (JNum 42) (JNum 7)) =
      Some (JStr (js ''thread_old''))"
    by (simp add: sample_key_def)
  have st: "startup_world legacy_parse (Content legacy_content) = Some (world_of [])"
    by (rule startup_world_empty)
  have "?boot = (fst ?boot, snd ?boot)" by simp
  note durable = bare_handle_is_stale [OF disjI2 [OF conjI [OF p conjI [OF m conjI [OF st refl]]]] this]
  have r0: "?boot =
     (Inr (JStr (js ''thread_new'')),
      \<lparr>threads = [(sample_key, JObj [(js ''thread_id'', JStr (js ''thread_new'')),
                                     (js ''prompt_version'', JStr (js ''1.2''))])],
       file_writes = [[(sample_key, JObj [(js ''thread_id'', JStr (js ''thread_new'')),
                                          (js ''prompt_version'', JStr (js ''1.2''))])]],
       api_log = [ThreadsCreate], responses = [], sent = [], logged = []\<rparr>)"
    by (simp add: getOrCreateThread_def Let_def saveThreads_def threads_at_def reusable_def
        world_of_def sample_env_def sample_key_def session_record_def PROMPT_VERSION_def)
  from mem durable bare env p m st r0 show ?thesis
    by (simp add: PROMPT_VERSION_def)
qed

text \<open>
  C3. When \<open>getOrCreateThread\<close> has returned a handle, calling it again for the same
  chat and user returns the same handle and leaves the whole state as it is: no call to
  the assistant service, no change of \<open>threads\<close>, no write. Across the two calls the
  store is written at most once. The thread ids issued by the service are taken to be
  non-empty strings.
\<close>

theorem getOrCreateThread_twice:
  assumes first: "getOrCreateThread e1 w chatId userId = (Inr h, w1)"
    and issued: "\<forall>tid. threads_create e1 = Inr tid \<longrightarrow> tid \<noteq> []"
  shows "getOrCreateThread e2 w1 chatId userId = (Inr h, w1) \<and>
         (file_writes w1 = file_writes w \<or> (\<exists>ts. file_writes w1 = file_writes w @ [ts]))"
proof (cases "reusable (threads_at w (getThreadKey chatId userId))")
  case True
  with first have "h = get_prop (threads_at w (getThreadKey chatId userId)) (js ''thread_id'')"
    "w1 = w"
    by (auto simp: getOrCreateThread_hit)
  with True show ?thesis by (simp add: getOrCreateThread_hit)
next
  case False
  note miss = getOrCreateThread_miss [OF False, of e1, unfolded Let_def]
  from first miss obtain tid where tid: "threads_create e1 = Inr tid"
    by (cases "threads_create e1") auto
  from first miss tid have ok: "writeFileSync e1 = None"
    by (cases "writeFileSync e1") auto
  let ?ts = "AList.update (getThreadKey chatId userId) (session_record tid) (threads w)"
  from first miss tid ok have h: "h = JStr tid"
    and w1: "w1 = w\<lparr>api_log := api_log w @ [ThreadsCreate], threads := ?ts,
                     file_writes := file_writes w @ [?ts]\<rparr>"
    by auto
  from w1 have "threads_at w1 (getThreadKey chatId userId) = session_record tid"
    by (simp add: threads_at_eq)
  moreover from issued tid have "tid \<noteq> []" by blast
  ultimately have "getOrCreateThread e2 w1 chatId userId = (Inr h, w1)"
    using h by (simp add: getOrCreateThread_hit reusable_session_record thread_id_session_record)
  moreover from w1 have "file_writes w1 = file_writes w @ [?ts]" by simp
  ultimately show ?thesis by blast
qed

theorem getOrCreateThread_twice_witness:
  "threads_create sample_env = Inr (js ''thread_new'') \<and> js ''thread_new'' \<noteq> [] \<and>
   fst (getOrCreateThread sample_env (world_of []) (JNum 42) (JNum 7)) = Inr (JStr (js ''thread_new'')) \<and>
   getOrCreateThread sample_env
     (snd (getOrCreateThread sample_env (world_of []) (JNum 42) (JNum 7))) (JNum 42) (JNum 7) =
   (Inr (JStr (js ''thread_new'')), snd (getOrCreateThread sample_env (world_of []) (JNum 42) (JNum 7))) \<and>
   length (file_writes (snd (getOrCreateThread sample_env (world_of []) (JNum 42) (JNum 7)))) = 1"
proof -
  let ?run = "getOrCreateThread sample_env (world_of []) (JNum 42) (JNum 7)"
  have issued: "\<forall>tid. threads_create sample_env = Inr tid \<longrightarrow> tid \<noteq> []"
    by (simp add: sample_env_def)
  have fst: "fst ?run = Inr (JStr (js ''thread_new''))"
    by (simp add: getOrCreateThread_def Let_def saveThreads_def threads_at_def reusable_def
        world_of_def sample_env_def)
  have len: "length (file_writes (snd ?run)) = 1"
    by (simp add: getOrCreateThread_def Let_def saveThreads_def threads_at_def reusable_def
        world_of_def sample_env_def)
  from fst have "?run = (Inr (JStr (js ''thread_new'')), snd ?run)"
    by (metis prod.collapse)
  from getOrCreateThread_twice [OF this issued, of sample_env] fst len
  show ?thesis by (simp add: sample_env_def)
qed

section \<open>The conversation driver\<close>

lemma runAssistant_with_not_completed:
  assumes "resolve e w chatId userId = (Inr h, w1)"
    and "messages_create e = None"
    and "runs_createAndPoll e = Inr status"
    and "status \<noteq> js ''completed''"
  shows "runAssistant_with resolve failure fallback cfg e w chatId userId userText =
           (Inl (Error (failure @ status)),
            w1\<lparr>api_log := api_log w1 @
               [MessagesCreate h (js ''user'') userText, RunsCreateAndPoll h (ASSISTANT_ID cfg)]\<rparr>)"
  using assms by (simp add: runAssistant_with_def Let_def)

lemma runAssistant_with_completed:
  assumes "resolve e w chatId userId = (Inr h, w1)"
    and "messages_create e = None"
    and "runs_createAndPoll e = Inr (js ''completed'')"
    and "messages_list e = Inr data"
    and "find_assistant data = Inr m"
  shows "fst (runAssistant_with resolve failure fallback cfg e w chatId userId userText) =
           Inr (reply_of fallback m)"
  using assms by (simp add: runAssistant_with_def Let_def)

lemma runAssistant_with_sent:
  assumes "\<And>w. sent (snd (resolve e w chatId userId)) = sent w"
  shows "sent (snd (runAssistant_with resolve failure fallback cfg e w chatId userId userText)) = sent w"
proof -
  obtain r w1 where res: "resolve e w chatId userId = (r, w1)" by (cases "resolve e w chatId userId")
  with assms [of w] have "sent w1 = sent w" by simp
  with res show ?thesis
    by (auto simp: runAssistant_with_def Let_def split: sum.splits option.splits)
qed

lemma getOrCreateThread_sent: "sent (snd (getOrCreateThread e w chatId userId)) = sent w"
  by (auto simp: getOrCreateThread_def Let_def saveThreads_def split: sum.splits option.splits)

lemma index_getOrCreateThread_sent:
  "sent (snd (index_getOrCreateThread e w chatId userId)) = sent w"
  by (auto simp: index_getOrCreateThread_def Let_def saveThreads_def split: sum.splits option.splits)

lemma runAssistant_with_fails:
  assumes "messages_create e = None"
    and "runs_createAndPoll e = Inr status"
    and "status \<noteq> js ''completed''"
  shows "\<exists>err. fst (runAssistant_with resolve failure fallback cfg e w chatId userId userText) = Inl err"
proof -
  obtain r w1 where res: "resolve e w chatId userId = (r, w1)" by (cases "resolve e w chatId userId")
  with assms show ?thesis
    by (cases r) (auto simp: runAssistant_with_def Let_def)
qed

lemma webhook_with_no_reply:
  assumes sent: "\<And>w chatId userId userText. sent (snd (run cfg e w chatId userId userText)) = sent w"
    and fails: "\<And>w chatId userId userText. \<exists>err. fst (run cfg e w chatId userId userText) = Inl err"
  shows "sent (webhook_with run cfg e w body) = sent w"
proof (cases "handle_update cfg body")
  case Skip
  then show ?thesis by (simp add: webhook_with_def Let_def)
next
  case (Throw err)
  then show ?thesis by (simp add: webhook_with_def Let_def)
next
  case (Dispatch chatId userId t mid)
  let ?w0 = "w\<lparr>responses := responses w @ [200]\<rparr>"
  obtain r w1 where res: "run cfg e ?w0 chatId userId t = (r, w1)"
    by (cases "run cfg e ?w0 chatId userId t")
  from fails [of ?w0 chatId userId t] res obtain err where "r = Inl err" by auto
  moreover from sent [of ?w0 chatId userId t] res have "sent w1 = sent w" by simp
  ultimately show ?thesis using Dispatch res by (simp add: webhook_with_def Let_def)
qed

text \<open>
  C4. When the user turn has been appended and the run ends with a status other than
  \<open>completed\<close>, \<open>runAssistant\<close> throws an \<open>Error\<close> whose message ends with that
  status, in both programs. The last two calls to the assistant service are then the
  append of the user turn to the session and the run: nothing is issued afterwards that
  would take the turn back. The webhook handler sends no reply.
\<close>

theorem run_failure_keeps_user_turn:
  assumes appended: "messages_create e = None"
    and status: "runs_createAndPoll e = Inr status"
    and failed: "status \<noteq> js ''completed''"
  shows "(\<forall>h w1. getOrCreateThread e w chatId userId = (Inr h, w1) \<longrightarrow>
            runAssistant cfg e w chatId userId userText =
              (Inl (Error (js ''Assistant run failed: '' @ status)),
               w1\<lparr>api_log := api_log w1 @
                  [MessagesCreate h (js ''user'') userText,
                   RunsCreateAndPoll h (ASSISTANT_ID cfg)]\<rparr>)) \<and>
         (\<forall>h w1. index_getOrCreateThread e w chatId userId = (Inr h, w1) \<longrightarrow>
            index_runAssistant cfg e w chatId userId userText =
              (Inl (Error (js ''Assistant run failed with status: '' @ status)),
               w1\<lparr>api_log := api_log w1 @
                  [MessagesCreate h (js ''user'') userText,
                   RunsCreateAndPoll h (ASSISTANT_ID cfg)]\<rparr>)) \<and>
         sent (webhook cfg e w body) = sent w \<and>
         sent (index_webhook cfg e w body) = sent w"
proof -
  have "sent (webhook cfg e w body) = sent w"
    unfolding webhook_def runAssistant_def
    by (rule webhook_with_no_reply)
      (simp_all add: runAssistant_with_sent getOrCreateThread_sent
         runAssistant_with_fails [OF appended status failed])
  moreover have "sent (index_webhook cfg e w body) = sent w"
    unfolding index_webhook_def index_runAssistant_def
    by (rule webhook_with_no_reply)
      (simp_all add: runAssistant_with_sent index_getOrCreateThread_sent
         runAssistant_with_fails [OF appended status failed])
  ultimately show ?thesis
    using runAssistant_with_not_completed [OF _ appended status failed]
    by (simp add: runAssistant_def index_runAssistant_def)
qed

theorem run_failure_keeps_user_turn_witness:
  "messages_create (sample_env\<lparr>runs_createAndPoll := Inr (js ''failed'')\<rparr>) = None \<and>
   runs_createAndPoll (sample_env\<lparr>runs_createAndPoll := Inr (js ''failed'')\<rparr>) = Inr (js ''failed'') \<and>
   js ''failed'' \<noteq> js ''completed'' \<and>
   runAssistant sample_cfg (sample_env\<lparr>runs_createAndPoll := Inr (js ''failed'')\<rparr>)
       (world_of []) (JNum 42) (JNum 7) (js ''hello'') =
     (Inl (Error (js ''Assistant run failed: '' @ js ''failed'')),
      \<lparr>threads = [(sample_key, session_record (js ''thread_new''))],
       file_writes = [[(sample_key, session_record (js ''thread_new''))]],
       api_log = [ThreadsCreate, MessagesCreate (JStr (js ''thread_new'')) (js ''user'') (js ''hello''),
                  RunsCreateAndPoll (JStr (js ''thread_new'')) (js ''asst_1'')],
       responses = [], sent = [], logged = []\<rparr>) \<and>
   sent (webhook sample_cfg (sample_env\<lparr>runs_createAndPoll := Inr (js ''failed'')\<rparr>)
           (world_of []) (telegram_update (js ''private'') (js ''hello''))) = []"
proof -
  let ?e = "sample_env\<lparr>runs_createAndPoll := Inr (js ''failed'')\<rparr>"
  have a: "messages_create ?e = None" by (simp add: sample_env_def)
  have b: "runs_createAndPoll ?e = Inr (js ''failed'')" by simp
  have c: "js ''failed'' \<noteq> js ''completed''" by simp
  have r: "getOrCreateThread ?e (world_of []) (JNum 42) (JNum 7) =
      (Inr (JStr (js ''thread_new'')),
       \<lparr>threads = [(sample_key, session_record (js ''thread_new''))],
        file_writes = [[(sample_key, session_record (js ''thread_new''))]],
        api_log = [ThreadsCreate], responses = [], sent = [], logged = []\<rparr>)"
    by (simp add: getOrCreateThread_def Let_def saveThreads_def threads_at_def reusable_def
        world_of_def sample_env_def sample_key_def)
  from run_failure_keeps_user_turn [OF a b c, of "world_of []" "JNum 42" "JNum 7" sample_cfg
      "js ''hello''" "telegram_update (js ''private'') (js ''hello'')"] r a b c
  show ?thesis by (simp add: sample_cfg_def world_of_def)
qed

subsection \<open>The reply\<close>

lemma find_assistant_none:
  "\<forall>m\<in>set data. \<not> nullish m \<and> get_prop m (js ''role'') \<noteq> JStr (js ''assistant'') \<Longrightarrow>
   find_assistant data = Inr JUndefined"
  by (induction data) auto

lemma find_assistant_first:
  "\<forall>x\<in>set pre. \<not> nullish x \<and> get_prop x (js ''role'') \<noteq> JStr (js ''assistant'') \<Longrightarrow>
   get_prop m (js ''role'') = JStr (js ''assistant'') \<Longrightarrow>
   find_assistant (pre @ m # post) = Inr m"
proof (induction pre)
  case Nil
  then show ?case by (cases m) auto
next
  case (Cons x xs)
  then show ?case by simp
qed

lemma reply_of_undefined: "reply_of fallback JUndefined = JStr fallback"
  by (simp add: reply_of_def text_value_def opt_prop_def)

lemma reply_of_no_text: "\<not> truthy (text_value m) \<Longrightarrow> reply_of fallback m = JStr fallback"
  by (simp add: reply_of_def)

text \<open>
  C8. After a completed run, when no message of the listed window has the role
  \<open>assistant\<close>, or when the first one that has it carries no text value
  (\<open>content?.[0]?.text?.value\<close> is \<open>undefined\<close>, \<open>null\<close> or empty), \<open>runAssistant\<close>
  returns the fallback string of its program and does not throw. The messages of the
  window before the first assistant message are taken to be objects, as the client
  library delivers them.
\<close>

theorem fallback_reply:
  assumes appended: "messages_create e = None"
    and completed: "runs_createAndPoll e = Inr (js ''completed'')"
    and listed: "messages_list e = Inr data"
    and none_or_empty:
      "(\<forall>m\<in>set data. \<not> nullish m \<and> get_prop m (js ''role'') \<noteq> JStr (js ''assistant'')) \<or>
       (\<exists>pre m post. data = pre @ m # post \<and>
          (\<forall>x\<in>set pre. \<not> nullish x \<and> get_prop x (js ''role'') \<noteq> JStr (js ''assistant'')) \<and>
          get_prop m (js ''role'') = JStr (js ''assistant'') \<and> \<not> truthy (text_value m))"
  shows "(\<forall>h w1. getOrCreateThread e w chatId userId = (Inr h, w1) \<longrightarrow>
            fst (runAssistant cfg e w chatId userId userText) = Inr (JStr (js ''No response.''))) \<and>
         (\<forall>h w1. index_getOrCreateThread e w chatId userId = (Inr h, w1) \<longrightarrow>
            fst (index_runAssistant cfg e w chatId userId userText) =
              Inr (JStr (js ''No response generated.'')))"
proof -
  from none_or_empty obtain m where found: "find_assistant data = Inr m"
    and reply: "\<And>fallback. reply_of fallback m = JStr fallback"
  proof
    assume "\<forall>m\<in>set data. \<not> nullish m \<and> get_prop m (js ''role'') \<noteq> JStr (js ''assistant'')"
    then have "find_assistant data = Inr JUndefined" by (rule find_assistant_none)
    then show ?thesis using that reply_of_undefined by blast
  next
    assume "\<exists>pre m post. data = pre @ m # post \<and>
          (\<forall>x\<in>set pre. \<not> nullish x \<and> get_prop x (js ''role'') \<noteq> JStr (js ''assistant'')) \<and>
          get_prop m (js ''role'') = JStr (js ''assistant'') \<and> \<not> truthy (text_value m)"
    then obtain pre m post where "data = pre @ m # post"
      "\<forall>x\<in>set pre. \<not> nullish x \<and> get_prop x (js ''role'') \<noteq> JStr (js ''assistant'')"
      "get_prop m (js ''role'') = JStr (js ''assistant'')" "\<not> truthy (text_value m)"
      by blast
    then have "find_assistant data = Inr m" "\<And>fallback. reply_of fallback m = JStr fallback"
      by (simp_all add: find_assistant_first reply_of_no_text)
    then show ?thesis using that by blast
  qed
  show ?thesis
    using runAssistant_with_completed [OF _ appended completed listed found] reply
    by (simp add: runAssistant_def index_runAssistant_def)
qed

theorem fallback_reply_witness:
  "messages_create (sample_env\<lparr>messages_list :=
       Inr [JObj [(js ''role'', JStr (js ''user'')), (js ''content'', JArr [])],
            JObj [(js ''role'', JStr (js ''assistant'')), (js ''content'', JArr [])]]\<rparr>) = None \<and>
   \<not> truthy (text_value (JObj [(js ''role'', JStr (js ''assistant'')), (js ''content'', JArr [])])) \<and>
   fst (runAssistant sample_cfg (sample_env\<lparr>messages_list :=
       Inr [JObj [(js ''role'', JStr (js ''user'')), (js ''content'', JArr [])],
            JObj [(js ''role'', JStr (js ''assistant'')), (js ''content'', JArr [])]]\<rparr>)
       (world_of []) (JNum 42) (JNum 7) (js ''hello'')) = Inr (JStr (js ''No response.'')) \<and>
   fst (index_runAssistant sample_cfg (sample_env\<lparr>messages_list :=
       Inr [JObj [(js ''role'', JStr (js ''user'')), (js ''content'', JArr [])],
            JObj [(js ''role'', JStr (js ''assistant'')), (js ''content'', JArr [])]]\<rparr>)
       (world_of []) (JNum 42) (JNum 7) (js ''hello'')) = Inr (JStr (js ''No response generated.''))"
proof -
  let ?u = "JObj [(js ''role'', JStr (js ''user'')), (js ''content'', JArr [])]"
  let ?m = "JObj [(js ''role'', JStr (js ''assistant'')), (js ''content'', JArr [])]"
  let ?e = "sample_env\<lparr>messages_list := Inr [?u, ?m]\<rparr>"
  have a: "messages_create ?e = None" by (simp add: sample_env_def)
  have b: "runs_createAndPoll ?e = Inr (js ''completed'')" by (simp add: sample_env_def)
  have c: "messages_list ?e = Inr [?u, ?m]" by simp
  have t: "\<not> truthy (text_value ?m)" by (simp add: text_value_def opt_prop_def)
  have d: "(\<forall>m\<in>set [?u, ?m]. \<not> nullish m \<and> get_prop m (js ''role'') \<noteq> JStr (js ''assistant'')) \<or>
       (\<exists>pre m post. [?u, ?m] = pre @ m # post \<and>
          (\<forall>x\<in>set pre. \<not> nullish x \<and> get_prop x (js ''role'') \<noteq> JStr (js ''assistant'')) \<and>
          get_prop m (js ''role'') = JStr (js ''assistant'') \<and> \<not> truthy (text_value m))"
  proof -
    have "[?u, ?m] = [?u] @ ?m # []" by simp
    moreover have "\<forall>x\<in>set [?u]. \<not> nullish x \<and> get_prop x (js ''role'') \<noteq> JStr (js ''assistant'')"
      by simp
    moreover have "get_prop ?m (js ''role'') = JStr (js ''assistant'')" by simp
    ultimately show ?thesis using t by blast
  qed
  have r: "fst (getOrCreateThread ?e (world_of []) (JNum 42) (JNum 7)) = Inr (JStr (js ''thread_new''))"
    by (simp add: getOrCreateThread_def Let_def saveThreads_def threads_at_def reusable_def
        world_of_def sample_env_def)
  have r': "fst (index_getOrCreateThread ?e (world_of []) (JNum 42) (JNum 7)) = Inr (JStr (js ''thread_new''))"
    by (simp add: index_getOrCreateThread_def Let_def saveThreads_def threads_at_def
        world_of_def sample_env_def)
  from r have "getOrCreateThread ?e (world_of []) (JNum 42) (JNum 7) =
      (Inr (JStr (js ''thread_new'')), snd (getOrCreateThread ?e (world_of []) (JNum 42) (JNum 7)))"
    by (metis prod.collapse)
  moreover from r' have "index_getOrCreateThread ?e (world_of []) (JNum 42) (JNum 7) =
      (Inr (JStr (js ''thread_new'')), snd (index_getOrCreateThread ?e (world_of []) (JNum 42) (JNum 7)))"
    by (metis prod.collapse)
  ultimately show ?thesis
    using fallback_reply [OF a b c d, of "world_of []" "JNum 42" "JNum 7" sample_cfg "js ''hello''"] a t
    by blast
qed

section \<open>Facts about inbound updates\<close>

lemma js_at: "js ''@'' = [64]"
  by (simp add: js_def)

lemma mention_edges:
  assumes "BOT_USERNAME cfg = [] \<or> \<not> is_ws (last (BOT_USERNAME cfg))"
  shows "mention_of cfg \<noteq> [] \<and> \<not> is_ws (hd (mention_of cfg)) \<and> \<not> is_ws (last (mention_of cfg))"
  using assms by (auto simp: mention_of_def js_at is_ws_def)

lemma trim_around:
  assumes m: "m \<noteq> []" "\<not> is_ws (hd m)" "\<not> is_ws (last m)"
  shows "\<exists>p x y q. trim (a @ m @ b) = x @ m @ y \<and> a = p @ x \<and> b = y @ q \<and>
           (\<forall>c\<in>set p. is_ws c) \<and> (\<forall>c\<in>set q. is_ws c)"
proof -
  let ?p = "takeWhile is_ws a" and ?x = "dropWhile is_ws a"
  let ?y = "rev (dropWhile is_ws (rev b))" and ?q = "rev (takeWhile is_ws (rev b))"
  have a: "a = ?p @ ?x" by simp
  have "rev b = takeWhile is_ws (rev b) @ dropWhile is_ws (rev b)" by simp
  then have "rev (rev b) = rev (takeWhile is_ws (rev b) @ dropWhile is_ws (rev b))"
    by (simp only:)
  then have b: "b = ?y @ ?q" by (simp only: rev_rev_ident rev_append)
  have p: "\<forall>c\<in>set ?p. is_ws c" by (meson set_takeWhileD)
  have q: "\<forall>c\<in>set ?q. is_ws c" by (metis set_rev set_takeWhileD)
  have hd: "\<not> is_ws (hd (?x @ m @ ?y))"
  proof (cases "?x = []")
    case True
    then show ?thesis using m by (simp only: append_Nil hd_append2 simp_thms)
  next
    case False
    then have "\<not> is_ws (hd ?x)" by (rule hd_dropWhile)
    with False show ?thesis by (simp only: hd_append2 simp_thms)
  qed
  have last: "\<not> is_ws (last (?x @ m @ ?y))"
  proof (cases "dropWhile is_ws (rev b) = []")
    case True
    then have "?y = []" by (simp only: rev.simps)
    then show ?thesis using m by (simp only: append_Nil2 last_appendR simp_thms)
  next
    case False
    then have "\<not> is_ws (hd (dropWhile is_ws (rev b)))" by (rule hd_dropWhile)
    moreover have "last ?y = hd (dropWhile is_ws (rev b))" using False by (simp only: last_rev)
    moreover have "?y \<noteq> []" using False by (simp only: rev_is_Nil_conv simp_thms)
    ultimately show ?thesis using m(1) by (simp only: last_appendR simp_thms append_is_Nil_conv)
  qed
  have "a @ m @ b = ?p @ (?x @ m @ ?y) @ ?q"
    using a b by (metis append.assoc)
  then have "trim (a @ m @ b) = ?x @ m @ ?y"
    using trim_unique [of "a @ m @ b" ?p "?x @ m @ ?y" ?q] p q hd last by blast
  with a b p q show ?thesis by blast
qed

lemma includes_trim:
  assumes m: "m \<noteq> []" "\<not> is_ws (hd m)" "\<not> is_ws (last m)"
  shows "js_includes (trim s) m \<longleftrightarrow> (\<exists>a b. s = a @ m @ b)"
proof
  assume "js_includes (trim s) m"
  then obtain a b where t: "trim s = a @ m @ b" by (auto simp: js_includes_iff)
  obtain x y where "s = x @ trim s @ y" using trim_decomp by blast
  with t have "s = (x @ a) @ m @ (b @ y)" by simp
  then show "\<exists>a b. s = a @ m @ b" by blast
next
  assume "\<exists>a b. s = a @ m @ b"
  then obtain a b where s: "s = a @ m @ b" by blast
  from trim_around [OF m, of a b] obtain x y where "trim (a @ m @ b) = x @ m @ y" by blast
  with s show "js_includes (trim s) m" by (auto simp: js_includes_iff)
qed

lemma strip_first_mention:
  assumes m: "m \<noteq> []" "\<not> is_ws (hd m)" "\<not> is_ws (last m)"
    and first: "\<forall>a' b'. a @ m @ b = a' @ m @ b' \<longrightarrow> length a \<le> length a'"
  shows "trim (replace (trim (a @ m @ b)) m []) = trim (a @ b)"
proof -
  from trim_around [OF m, of a b] obtain p x y q where
    t: "trim (a @ m @ b) = x @ m @ y" and a: "a = p @ x" and b: "b = y @ q"
    and p: "\<forall>c\<in>set p. is_ws c" and q: "\<forall>c\<in>set q. is_ws c"
    by blast
  have "\<forall>a' b'. x @ m @ y = a' @ m @ b' \<longrightarrow> length x \<le> length a'"
  proof (intro allI impI)
    fix a' b' assume "x @ m @ y = a' @ m @ b'"
    then have "p @ (x @ m @ y) @ q = p @ (a' @ m @ b') @ q" by simp
    with a b have "a @ m @ b = (p @ a') @ m @ (b' @ q)" by simp
    with first have "length a \<le> length (p @ a')" by blast
    with a show "length x \<le> length a'" by simp
  qed
  then have "replace (x @ m @ y) m [] = x @ [] @ y" by (rule replace_first)
  with t have "trim (replace (trim (a @ m @ b)) m []) = trim (x @ y)" by simp
  also have "a @ b = p @ (x @ y) @ q" using a b by simp
  then have "trim (x @ y) = trim (a @ b)" using trim_ws_context [OF p q, of "x @ y"] by simp
  finally show ?thesis .
qed

lemma handle_update_text_message:
  assumes msg: "message = opt_prop body (js ''message'')"
    and rawtext: "get_prop message (js ''text'') = JStr raw"
    and ne: "raw \<noteq> []"
    and chat: "\<not> nullish (get_prop message (js ''chat''))"
  shows "handle_update cfg body =
     (if get_prop (get_prop message (js ''chat'')) (js ''type'') \<noteq> JStr (js ''private'') \<and>
         \<not> js_includes (trim raw) (mention_of cfg) then Skip
      else Dispatch (get_prop (get_prop message (js ''chat'')) (js ''id''))
             (opt_prop (get_prop message (js ''from'')) (js ''id''))
             (if get_prop (get_prop message (js ''chat'')) (js ''type'') \<noteq> JStr (js ''private'')
              then trim (replace (trim raw) (mention_of cfg) []) else trim raw)
             (get_prop message (js ''message_id'')))"
proof -
  from rawtext have "\<not> nullish message" by (cases message) auto
  then have "opt_prop message (js ''text'') = JStr raw" using rawtext by (simp add: opt_prop_def)
  with msg rawtext ne chat show ?thesis
    by (simp add: handle_update_def Let_def)
qed

lemma handle_update_sample:
  "raw \<noteq> [] \<Longrightarrow>
   handle_update cfg (telegram_update chat_type raw) =
     (if chat_type \<noteq> js ''private'' \<and> \<not> js_includes (trim raw) (mention_of cfg) then Skip
      else Dispatch (JNum 42) (JNum 7)
             (if chat_type \<noteq> js ''private'' then trim (replace (trim raw) (mention_of cfg) [])
              else trim raw) (JNum 1))"
  by (simp add: handle_update_def Let_def telegram_update_def opt_prop_def)

subsection \<open>What the handler sends to the assistant service\<close>

lemma getOrCreateThread_api_log:
  "getOrCreateThread e w chatId userId = (r, w1) \<Longrightarrow>
   (api_log w1 = api_log w \<and> (\<exists>h. r = Inr h)) \<or> api_log w1 = api_log w @ [ThreadsCreate]"
  by (auto simp: getOrCreateThread_def Let_def saveThreads_def
      split: if_splits sum.splits option.splits)

lemma index_getOrCreateThread_api_log:
  "index_getOrCreateThread e w chatId userId = (r, w1) \<Longrightarrow>
   (api_log w1 = api_log w \<and> (\<exists>h. r = Inr h)) \<or> api_log w1 = api_log w @ [ThreadsCreate]"
  by (auto simp: index_getOrCreateThread_def Let_def saveThreads_def
      split: if_splits sum.splits option.splits)

lemma runAssistant_with_forwards:
  assumes "resolve e w chatId userId = (Inr h, w1)"
  shows "\<exists>rest. api_log (snd (runAssistant_with resolve failure fallback cfg e w chatId userId userText)) =
           api_log w1 @ MessagesCreate h (js ''user'') userText # rest \<and>
           (rest = [] \<or> rest = [RunsCreateAndPoll h (ASSISTANT_ID cfg)] \<or>
            rest = [RunsCreateAndPoll h (ASSISTANT_ID cfg), MessagesList h 5])"
  using assms
  by (auto simp: runAssistant_with_def Let_def split: sum.splits option.splits)

lemma runAssistant_with_calls:
  assumes "\<And>r w1. resolve e w chatId userId = (r, w1) \<Longrightarrow>
      (api_log w1 = api_log w \<and> (\<exists>h. r = Inr h)) \<or> api_log w1 = api_log w @ [ThreadsCreate]"
  shows "api_log (snd (runAssistant_with resolve failure fallback cfg e w chatId userId userText))
           \<noteq> api_log w"
proof -
  obtain r w1 where res: "resolve e w chatId userId = (r, w1)"
    by (cases "resolve e w chatId userId")
  show ?thesis
  proof (cases r)
    case (Inl err)
    with assms [OF res] have "api_log w1 = api_log w @ [ThreadsCreate]" by auto
    with res Inl show ?thesis by (simp add: runAssistant_with_def)
  next
    case (Inr h)
    from assms [OF res] obtain pre where pre: "api_log w1 = api_log w @ pre" by auto
    from runAssistant_with_forwards [of resolve e w chatId userId h w1 failure fallback cfg userText]
      res Inr
    obtain rest where
      "api_log (snd (runAssistant_with resolve failure fallback cfg e w chatId userId userText)) =
         api_log w1 @ MessagesCreate h (js ''user'') userText # rest"
      by blast
    with pre show ?thesis by simp
  qed
qed

lemma webhook_with_api_log:
  "handle_update cfg body = Dispatch chatId userId t mid \<Longrightarrow>
   api_log (webhook_with run cfg e w body) =
     api_log (snd (run cfg e (w\<lparr>responses := responses w @ [200]\<rparr>) chatId userId t))"
  by (auto simp: webhook_with_def Let_def split: prod.splits sum.splits option.splits)

lemma webhook_forwards:
  assumes "handle_update cfg body = Dispatch chatId userId t mid"
    and "getOrCreateThread e (w\<lparr>responses := responses w @ [200]\<rparr>) chatId userId = (Inr h, w1)"
  shows "\<exists>rest. api_log (webhook cfg e w body) =
           api_log w1 @ MessagesCreate h (js ''user'') t # rest \<and>
           (rest = [] \<or> rest = [RunsCreateAndPoll h (ASSISTANT_ID cfg)] \<or>
            rest = [RunsCreateAndPoll h (ASSISTANT_ID cfg), MessagesList h 5])"
  unfolding webhook_def webhook_with_api_log [OF assms(1)] runAssistant_def
  by (rule runAssistant_with_forwards [where resolve = getOrCreateThread, OF assms(2)])

lemma index_webhook_forwards:
  assumes "handle_update cfg body = Dispatch chatId userId t mid"
    and "index_getOrCreateThread e (w\<lparr>responses := responses w @ [200]\<rparr>) chatId userId = (Inr h, w1)"
  shows "\<exists>rest. api_log (index_webhook cfg e w body) =
           api_log w1 @ MessagesCreate h (js ''user'') t # rest \<and>
           (rest = [] \<or> rest = [RunsCreateAndPoll h (ASSISTANT_ID cfg)] \<or>
            rest = [RunsCreateAndPoll h (ASSISTANT_ID cfg), MessagesList h 5])"
  unfolding index_webhook_def webhook_with_api_log [OF assms(1)] index_runAssistant_def
  by (rule runAssistant_with_forwards [where resolve = index_getOrCreateThread, OF assms(2)])

lemma webhook_calls:
  assumes "handle_update cfg body = Dispatch chatId userId t mid"
  shows "api_log (webhook cfg e w body) \<noteq> api_log w"
    and "api_log (index_webhook cfg e w body) \<noteq> api_log w"
proof -
  let ?w0 = "w\<lparr>responses := responses w @ [200]\<rparr>"
  have "api_log (snd (runAssistant cfg e ?w0 chatId userId t)) \<noteq> api_log ?w0"
    unfolding runAssistant_def
    by (rule runAssistant_with_calls [where resolve = getOrCreateThread])
      (rule getOrCreateThread_api_log)
  then show "api_log (webhook cfg e w body) \<noteq> api_log w"
    by (simp add: webhook_def webhook_with_api_log [OF assms])
  have "api_log (snd (index_runAssistant cfg e ?w0 chatId userId t)) \<noteq> api_log ?w0"
    unfolding index_runAssistant_def
    by (rule runAssistant_with_calls [where resolve = index_getOrCreateThread])
      (rule index_getOrCreateThread_api_log)
  then show "api_log (index_webhook cfg e w body) \<noteq> api_log w"
    by (simp add: index_webhook_def webhook_with_api_log [OF assms])
qed

lemma sample_webhook_log:
  assumes "handle_update sample_cfg body = Dispatch (JNum 42) (JNum 7) t (JNum 1)"
  shows "api_log (webhook sample_cfg sample_env (world_of []) body) =
           [ThreadsCreate, MessagesCreate (JStr (js ''thread_new'')) (js ''user'') t,
            RunsCreateAndPoll (JStr (js ''thread_new'')) (js ''asst_1''),
            MessagesList (JStr (js ''thread_new'')) 5]"
  unfolding webhook_def webhook_with_api_log [OF assms]
  by (simp add: runAssistant_def runAssistant_with_def Let_def getOrCreateThread_def
      saveThreads_def threads_at_def reusable_def world_of_def sample_env_def sample_cfg_def)

text \<open>
  C5, as stated, fails: the handler trims every text before it looks at the kind of
  chat, so the private text \<open>" hi "\<close> is forwarded as \<open>"hi"\<close>.
\<close>

theorem private_text_counterexample:
  "handle_update sample_cfg (telegram_update (js ''private'') (js '' hi '')) =
     Dispatch (JNum 42) (JNum 7) (js ''hi'') (JNum 1) \<and>
   handle_update sample_cfg (telegram_update (js ''private'') (js '' hi '')) \<noteq>
     Dispatch (JNum 42) (JNum 7) (js '' hi '') (JNum 1) \<and>
   api_log (webhook sample_cfg sample_env (world_of [])
              (telegram_update (js ''private'') (js '' hi ''))) =
     [ThreadsCreate, MessagesCreate (JStr (js ''thread_new'')) (js ''user'') (js ''hi''),
      RunsCreateAndPoll (JStr (js ''thread_new'')) (js ''asst_1''),
      MessagesList (JStr (js ''thread_new'')) 5] \<and>
   js ''hi'' \<noteq> js '' hi ''"
proof -
  have "trim (js '' hi '') = js ''hi''"
    by (simp add: js_def trim_def is_ws_def)
  then have d: "handle_update sample_cfg (telegram_update (js ''private'') (js '' hi '')) =
     Dispatch (JNum 42) (JNum 7) (js ''hi'') (JNum 1)"
    by (simp add: handle_update_sample)
  from d sample_webhook_log [OF d] show ?thesis by simp
qed

text \<open>
  C5, amended. In a private chat the handler always calls the assistant service, and
  the text it appends to the session as the user turn is the message text with the
  whitespace at its two ends removed and nothing else changed: the mention is not looked
  for. A text without whitespace at its ends is forwarded as it is.
\<close>

theorem private_text_is_trimmed:
  assumes msg: "message = opt_prop body (js ''message'')"
    and rawtext: "get_prop message (js ''text'') = JStr raw"
    and ne: "raw \<noteq> []"
    and priv: "get_prop (get_prop message (js ''chat'')) (js ''type'') = JStr (js ''private'')"
    and cid: "chatId = get_prop (get_prop message (js ''chat'')) (js ''id'')"
    and uid: "userId = opt_prop (get_prop message (js ''from'')) (js ''id'')"
    and acked: "w0 = w\<lparr>responses := responses w @ [200]\<rparr>"
  shows "handle_update cfg body =
           Dispatch (get_prop (get_prop message (js ''chat'')) (js ''id''))
             (opt_prop (get_prop message (js ''from'')) (js ''id'')) (trim raw)
             (get_prop message (js ''message_id'')) \<and>
         (\<exists>x y. raw = x @ trim raw @ y \<and> (\<forall>c\<in>set x. is_ws c) \<and> (\<forall>c\<in>set y. is_ws c)) \<and>
         (trim raw = [] \<or> (\<not> is_ws (hd (trim raw)) \<and> \<not> is_ws (last (trim raw)))) \<and>
         (\<not> is_ws (hd raw) \<and> \<not> is_ws (last raw) \<longrightarrow> trim raw = raw) \<and>
         (\<forall>h w1. getOrCreateThread e w0 chatId userId = (Inr h, w1) \<longrightarrow>
            (\<exists>rest. api_log (webhook cfg e w body) =
                      api_log w1 @ MessagesCreate h (js ''user'') (trim raw) # rest \<and>
               (rest = [] \<or> rest = [RunsCreateAndPoll h (ASSISTANT_ID cfg)] \<or>
                rest = [RunsCreateAndPoll h (ASSISTANT_ID cfg), MessagesList h 5]))) \<and>
         (\<forall>h w1. index_getOrCreateThread e w0 chatId userId = (Inr h, w1) \<longrightarrow>
            (\<exists>rest. api_log (index_webhook cfg e w body) =
                      api_log w1 @ MessagesCreate h (js ''user'') (trim raw) # rest \<and>
               (rest = [] \<or> rest = [RunsCreateAndPoll h (ASSISTANT_ID cfg)] \<or>
                rest = [RunsCreateAndPoll h (ASSISTANT_ID cfg), MessagesList h 5]))) \<and>
         api_log (webhook cfg e w body) \<noteq> api_log w \<and>
         api_log (index_webhook cfg e w body) \<noteq> api_log w"
proof -
  from priv have chat: "\<not> nullish (get_prop message (js ''chat''))"
    by (cases "get_prop message (js ''chat'')") auto
  from handle_update_text_message [OF msg rawtext ne chat] priv cid uid
  have d: "handle_update cfg body =
      Dispatch chatId userId (trim raw) (get_prop message (js ''message_id''))"
    by simp
  have "\<exists>rest. api_log (webhook cfg e w body) =
                      api_log w1 @ MessagesCreate h (js ''user'') (trim raw) # rest \<and>
               (rest = [] \<or> rest = [RunsCreateAndPoll h (ASSISTANT_ID cfg)] \<or>
                rest = [RunsCreateAndPoll h (ASSISTANT_ID cfg), MessagesList h 5])"
    if "getOrCreateThread e w0 chatId userId = (Inr h, w1)" for h w1
    using webhook_forwards [OF d] that acked by simp
  moreover have "\<exists>rest. api_log (index_webhook cfg e w body) =
                      api_log w1 @ MessagesCreate h (js ''user'') (trim raw) # rest \<and>
               (rest = [] \<or> rest = [RunsCreateAndPoll h (ASSISTANT_ID cfg)] \<or>
                rest = [RunsCreateAndPoll h (ASSISTANT_ID cfg), MessagesList h 5])"
    if "index_getOrCreateThread e w0 chatId userId = (Inr h, w1)" for h w1
    using index_webhook_forwards [OF d] that acked by simp
  moreover note webhook_calls [OF d, of e w]
  moreover from d cid uid have "handle_update cfg body =
           Dispatch (get_prop (get_prop message (js ''chat'')) (js ''id''))
             (opt_prop (get_prop message (js ''from'')) (js ''id'')) (trim raw)
             (get_prop message (js ''message_id''))"
    by simp
  ultimately show ?thesis
    using trim_decomp [of raw] trim_edges [of raw] trim_id [of raw] by blast
qed

theorem private_text_is_trimmed_witness:
  "get_prop (opt_prop (telegram_update (js ''private'') (js '' hi '')) (js ''message'')) (js ''text'')
     = JStr (js '' hi '') \<and>
   js '' hi '' \<noteq> [] \<and>
   get_prop (get_prop (opt_prop (telegram_update (js ''private'') (js '' hi '')) (js ''message''))
     (js ''chat'')) (js ''type'') = JStr (js ''private'') \<and>
   handle_update sample_cfg (telegram_update (js ''private'') (js '' hi '')) =
     Dispatch (JNum 42) (JNum 7) (trim (js '' hi '')) (JNum 1) \<and>
   trim (js '' hi '') = js ''hi'' \<and>
   api_log (webhook sample_cfg sample_env (world_of [])
              (telegram_update (js ''private'') (js '' hi ''))) =
     [ThreadsCreate, MessagesCreate (JStr (js ''thread_new'')) (js ''user'') (js ''hi''),
      RunsCreateAndPoll (JStr (js ''thread_new'')) (js ''asst_1''),
      MessagesList (JStr (js ''thread_new'')) 5]"
proof -
  let ?b = "telegram_update (js ''private'') (js '' hi '')"
  have a: "get_prop (opt_prop ?b (js ''message'')) (js ''text'') = JStr (js '' hi '')"
    by (simp add: telegram_update_def opt_prop_def)
  have b: "js '' hi '' \<noteq> []" by simp
  have c: "get_prop (get_prop (opt_prop ?b (js ''message'')) (js ''chat'')) (js ''type'')
      = JStr (js ''private'')"
    by (simp add: telegram_update_def opt_prop_def)
  have d: "trim (js '' hi '') = js ''hi''"
    by (simp add: js_def trim_def is_ws_def)
  note t = private_text_is_trimmed [OF refl a b c refl refl refl,
      where cfg = sample_cfg and e = sample_env and w = "world_of []"]
  from t have 1: "handle_update sample_cfg ?b = Dispatch (JNum 42) (JNum 7) (trim (js '' hi '')) (JNum 1)"
    by (simp add: telegram_update_def opt_prop_def)
  from 1 d have "handle_update sample_cfg ?b = Dispatch (JNum 42) (JNum 7) (js ''hi'') (JNum 1)"
    by simp
  from sample_webhook_log [OF this] a b c d 1 show ?thesis by simp
qed

lemma includes_trim_imp: "js_includes (trim s) m \<Longrightarrow> \<exists>a b. s = a @ m @ b"
proof -
  assume "js_includes (trim s) m"
  then obtain a b where t: "trim s = a @ m @ b" by (auto simp: js_includes_iff)
  obtain x y where "s = x @ trim s @ y" using trim_decomp by blast
  with t have "s = (x @ a) @ m @ (b @ y)" by simp
  then show ?thesis by blast
qed

lemma webhook_with_skip:
  "handle_update cfg body = Skip \<Longrightarrow> webhook_with run cfg e w body = w\<lparr>responses := responses w @ [200]\<rparr>"
  by (simp add: webhook_with_def Let_def)

lemma group_example:
  "handle_update (cfg\<lparr>BOT_USERNAME := js ''BotName''\<rparr>)
     (telegram_update (js ''group'') (js ''@BotName hello'')) =
   Dispatch (JNum 42) (JNum 7) (js ''hello'') (JNum 1)"
proof -
  have "trim (js ''@BotName hello'') = js ''@BotName hello''"
    by (simp add: js_def trim_def is_ws_def)
  moreover have "js_includes (js ''@BotName hello'') (js ''@'' @ js ''BotName'')"
    by (simp add: js_def)
  moreover have "replace (js ''@BotName hello'') (js ''@'' @ js ''BotName'') [] = js '' hello''"
    by (simp add: js_def)
  moreover have "trim (js '' hello'') = js ''hello''"
    by (simp add: js_def trim_def is_ws_def)
  ultimately show ?thesis
    by (simp add: handle_update_sample mention_of_def)
qed

lemma handle_update_group:
  assumes msg: "message = opt_prop body (js ''message'')"
    and rawtext: "get_prop message (js ''text'') = JStr raw"
    and ne: "raw \<noteq> []"
    and chat: "\<not> nullish (get_prop message (js ''chat''))"
    and group: "get_prop (get_prop message (js ''chat'')) (js ''type'') \<noteq> JStr (js ''private'')"
  shows "(\<nexists>a b. raw = a @ mention_of cfg @ b) \<Longrightarrow> handle_update cfg body = Skip"
    and "BOT_USERNAME cfg = [] \<or> \<not> is_ws (last (BOT_USERNAME cfg)) \<Longrightarrow>
         raw = a @ mention_of cfg @ b \<Longrightarrow>
         \<forall>a' b'. raw = a' @ mention_of cfg @ b' \<longrightarrow> length a \<le> length a' \<Longrightarrow>
         handle_update cfg body =
           Dispatch (get_prop (get_prop message (js ''chat'')) (js ''id''))
             (opt_prop (get_prop message (js ''from'')) (js ''id''))
             (trim (a @ b)) (get_prop message (js ''message_id''))"
    and "BOT_USERNAME cfg = [] \<or> \<not> is_ws (last (BOT_USERNAME cfg)) \<Longrightarrow>
         \<exists>a b. raw = a @ mention_of cfg @ b \<Longrightarrow>
         handle_update cfg body =
           Dispatch (get_prop (get_prop message (js ''chat'')) (js ''id''))
             (opt_prop (get_prop message (js ''from'')) (js ''id''))
             (trim (replace (trim raw) (mention_of cfg) []))
             (get_prop message (js ''message_id''))"
proof -
  note g = handle_update_text_message [OF msg rawtext ne chat, of cfg]
  show "handle_update cfg body = Skip" if "\<nexists>a b. raw = a @ mention_of cfg @ b"
  proof -
    from that have "\<not> js_includes (trim raw) (mention_of cfg)"
      using includes_trim_imp by blast
    with g group show ?thesis by simp
  qed
  show "handle_update cfg body =
           Dispatch (get_prop (get_prop message (js ''chat'')) (js ''id''))
             (opt_prop (get_prop message (js ''from'')) (js ''id''))
             (trim (replace (trim raw) (mention_of cfg) []))
             (get_prop message (js ''message_id''))"
    if "BOT_USERNAME cfg = [] \<or> \<not> is_ws (last (BOT_USERNAME cfg))"
      and "\<exists>a b. raw = a @ mention_of cfg @ b"
  proof -
    from that mention_edges [OF that(1)] have "js_includes (trim raw) (mention_of cfg)"
      by (simp add: includes_trim)
    with g group show ?thesis by simp
  qed
  note disp = this
  show "handle_update cfg body =
           Dispatch (get_prop (get_prop message (js ''chat'')) (js ''id''))
             (opt_prop (get_prop message (js ''from'')) (js ''id''))
             (trim (a @ b)) (get_prop message (js ''message_id''))"
    if name: "BOT_USERNAME cfg = [] \<or> \<not> is_ws (last (BOT_USERNAME cfg))"
      and raw: "raw = a @ mention_of cfg @ b"
      and first: "\<forall>a' b'. raw = a' @ mention_of cfg @ b' \<longrightarrow> length a \<le> length a'"
  proof -
    from strip_first_mention [of "mention_of cfg" a b] mention_edges [OF name] raw first
    have "trim (replace (trim raw) (mention_of cfg) []) = trim (a @ b)" by simp
    moreover from raw have "\<exists>a b. raw = a @ mention_of cfg @ b" by blast
    ultimately show ?thesis using disp [OF name] by simp
  qed
qed

text \<open>
  C6, as stated, fails: only the two ends of the text are trimmed after the mention has
  been removed, so the whitespace around a mention inside the text stays, and
  \<open>"hello @BotName world"\<close> is forwarded with two spaces between the words.
\<close>

theorem mid_text_mention_counterexample:
  "handle_update sample_cfg (telegram_update (js ''group'') (js ''hello @BotName world'')) =
     Dispatch (JNum 42) (JNum 7) (js ''hello  world'') (JNum 1) \<and>
   api_log (webhook sample_cfg sample_env (world_of [])
              (telegram_update (js ''group'') (js ''hello @BotName world''))) =
     [ThreadsCreate, MessagesCreate (JStr (js ''thread_new'')) (js ''user'') (js ''hello  world''),
      RunsCreateAndPoll (JStr (js ''thread_new'')) (js ''asst_1''),
      MessagesList (JStr (js ''thread_new'')) 5] \<and>
   js ''hello  world'' \<noteq> js ''hello world''"
proof -
  have "trim (js ''hello @BotName world'') = js ''hello @BotName world''"
    by (simp add: js_def trim_def is_ws_def)
  moreover have "js_includes (js ''hello @BotName world'') (mention_of sample_cfg)"
    by (simp add: js_def mention_of_def sample_cfg_def)
  moreover have "replace (js ''hello @BotName world'') (mention_of sample_cfg) [] = js ''hello  world''"
    by (simp add: js_def mention_of_def sample_cfg_def)
  moreover have "trim (js ''hello  world'') = js ''hello  world''"
    by (simp add: js_def trim_def is_ws_def)
  ultimately have d: "handle_update sample_cfg
      (telegram_update (js ''group'') (js ''hello @BotName world'')) =
     Dispatch (JNum 42) (JNum 7) (js ''hello  world'') (JNum 1)"
    by (simp add: handle_update_sample)
  from d sample_webhook_log [OF d] show ?thesis by simp
qed

text \<open>
  C6, amended. Outside private chats, a text that does not contain \<open>@BOT_USERNAME\<close>
  makes the handler return after its acknowledgement: nothing is called, sent or logged.
  A text that contains it is appended to the session as the user turn with the first
  occurrence of the mention removed and the whitespace at the two ends of the result
  trimmed; whitespace inside the text is kept. When the text starts with the mention,
  what is forwarded is the trimmed rest, and \<open>"@BotName hello"\<close> is forwarded as
  \<open>"hello"\<close>. The bot name is taken not to end with a whitespace character.
\<close>

theorem group_mention_filter:
  assumes msg: "message = opt_prop body (js ''message'')"
    and rawtext: "get_prop message (js ''text'') = JStr raw"
    and ne: "raw \<noteq> []"
    and chat: "\<not> nullish (get_prop message (js ''chat''))"
    and group: "get_prop (get_prop message (js ''chat'')) (js ''type'') \<noteq> JStr (js ''private'')"
    and cid: "chatId = get_prop (get_prop message (js ''chat'')) (js ''id'')"
    and uid: "userId = opt_prop (get_prop message (js ''from'')) (js ''id'')"
    and acked: "w0 = w\<lparr>responses := responses w @ [200]\<rparr>"
  shows "((\<nexists>a b. raw = a @ mention_of cfg @ b) \<longrightarrow>
            handle_update cfg body = Skip \<and>
            webhook cfg e w body = w\<lparr>responses := responses w @ [200]\<rparr> \<and>
            index_webhook cfg e w body = w\<lparr>responses := responses w @ [200]\<rparr>) \<and>
         ((BOT_USERNAME cfg = [] \<or> \<not> is_ws (last (BOT_USERNAME cfg))) \<and>
          (\<exists>a b. raw = a @ mention_of cfg @ b) \<longrightarrow>
            handle_update cfg body =
              Dispatch (get_prop (get_prop message (js ''chat'')) (js ''id''))
                (opt_prop (get_prop message (js ''from'')) (js ''id''))
                (trim (replace (trim raw) (mention_of cfg) []))
                (get_prop message (js ''message_id''))) \<and>
         (\<forall>rest. (BOT_USERNAME cfg = [] \<or> \<not> is_ws (last (BOT_USERNAME cfg))) \<and>
            raw = mention_of cfg @ rest \<longrightarrow>
            handle_update cfg body =
              Dispatch (get_prop (get_prop message (js ''chat'')) (js ''id''))
                (opt_prop (get_prop message (js ''from'')) (js ''id''))
                (trim rest)
                (get_prop message (js ''message_id''))) \<and>
         handle_update (cfg\<lparr>BOT_USERNAME := js ''BotName''\<rparr>)
             (telegram_update (js ''group'') (js ''@BotName hello'')) =
           Dispatch (JNum 42) (JNum 7) (js ''hello'') (JNum 1) \<and>
         (\<forall>a b. (BOT_USERNAME cfg = [] \<or> \<not> is_ws (last (BOT_USERNAME cfg))) \<and>
            raw = a @ mention_of cfg @ b \<and>
            (\<forall>a' b'. raw = a' @ mention_of cfg @ b' \<longrightarrow> length a \<le> length a') \<longrightarrow>
            handle_update cfg body =
              Dispatch chatId userId (trim (a @ b)) (get_prop message (js ''message_id'')) \<and>
            (\<forall>h w1. getOrCreateThread e w0 chatId userId = (Inr h, w1) \<longrightarrow>
               (\<exists>rest. api_log (webhook cfg e w body) =
                         api_log w1 @ MessagesCreate h (js ''user'') (trim (a @ b)) # rest \<and>
                  (rest = [] \<or> rest = [RunsCreateAndPoll h (ASSISTANT_ID cfg)] \<or>
                   rest = [RunsCreateAndPoll h (ASSISTANT_ID cfg), MessagesList h 5]))) \<and>
            (\<forall>h w1. index_getOrCreateThread e w0 chatId userId = (Inr h, w1) \<longrightarrow>
               (\<exists>rest. api_log (index_webhook cfg e w body) =
                         api_log w1 @ MessagesCreate h (js ''user'') (trim (a @ b)) # rest \<and>
                  (rest = [] \<or> rest = [RunsCreateAndPoll h (ASSISTANT_ID cfg)] \<or>
                   rest = [RunsCreateAndPoll h (ASSISTANT_ID cfg), MessagesList h 5]))))"
proof -
  note hu = handle_update_group [OF msg rawtext ne chat group, of cfg]
  have skip: "handle_update cfg body = Skip \<and>
            webhook cfg e w body = w\<lparr>responses := responses w @ [200]\<rparr> \<and>
            index_webhook cfg e w body = w\<lparr>responses := responses w @ [200]\<rparr>"
    if "\<nexists>a b. raw = a @ mention_of cfg @ b"
    using hu(1) [OF that] by (simp add: webhook_def index_webhook_def webhook_with_skip)
  have start: "handle_update cfg body =
              Dispatch (get_prop (get_prop message (js ''chat'')) (js ''id''))
                (opt_prop (get_prop message (js ''from'')) (js ''id''))
                (trim rest)
                (get_prop message (js ''message_id''))"
    if name: "BOT_USERNAME cfg = [] \<or> \<not> is_ws (last (BOT_USERNAME cfg))"
      and raw: "raw = mention_of cfg @ rest" for rest
  proof -
    from raw have "raw = [] @ mention_of cfg @ rest" by simp
    moreover have "\<forall>a' b'. raw = a' @ mention_of cfg @ b' \<longrightarrow> length ([]::nat list) \<le> length a'"
      by simp
    ultimately show ?thesis using hu(2) [OF name, of "[]" rest] by simp
  qed
  have first: "handle_update cfg body =
              Dispatch chatId userId (trim (a @ b)) (get_prop message (js ''message_id'')) \<and>
            (\<forall>h w1. getOrCreateThread e w0 chatId userId = (Inr h, w1) \<longrightarrow>
               (\<exists>rest. api_log (webhook cfg e w body) =
                         api_log w1 @ MessagesCreate h (js ''user'') (trim (a @ b)) # rest \<and>
                  (rest = [] \<or> rest = [RunsCreateAndPoll h (ASSISTANT_ID cfg)] \<or>
                   rest = [RunsCreateAndPoll h (ASSISTANT_ID cfg), MessagesList h 5]))) \<and>
            (\<forall>h w1. index_getOrCreateThread e w0 chatId userId = (Inr h, w1) \<longrightarrow>
               (\<exists>rest. api_log (index_webhook cfg e w body) =
                         api_log w1 @ MessagesCreate h (js ''user'') (trim (a @ b)) # rest \<and>
                  (rest = [] \<or> rest = [RunsCreateAndPoll h (ASSISTANT_ID cfg)] \<or>
                   rest = [RunsCreateAndPoll h (ASSISTANT_ID cfg), MessagesList h 5])))"
    if name: "BOT_USERNAME cfg = [] \<or> \<not> is_ws (last (BOT_USERNAME cfg))"
      and raw: "raw = a @ mention_of cfg @ b"
      and least: "\<forall>a' b'. raw = a' @ mention_of cfg @ b' \<longrightarrow> length a \<le> length a'" for a b
  proof -
    from hu(2) [OF name raw least] cid uid
    have d: "handle_update cfg body =
        Dispatch chatId userId (trim (a @ b)) (get_prop message (js ''message_id''))"
      by simp
    from d webhook_forwards [OF d, of e w] index_webhook_forwards [OF d, of e w] acked
    show ?thesis by simp
  qed
  from skip hu(3) start first show ?thesis
    by (simp add: group_example)
qed

theorem group_mention_filter_witness:
  "get_prop (opt_prop (telegram_update (js ''group'') (js ''@BotName hello'')) (js ''message''))
     (js ''text'') = JStr (js ''@BotName hello'') \<and>
   js ''@BotName hello'' \<noteq> [] \<and>
   get_prop (get_prop (opt_prop (telegram_update (js ''group'') (js ''@BotName hello''))
     (js ''message'')) (js ''chat'')) (js ''type'') \<noteq> JStr (js ''private'') \<and>
   \<not> is_ws (last (BOT_USERNAME sample_cfg)) \<and>
   js ''@BotName hello'' = [] @ mention_of sample_cfg @ js '' hello'' \<and>
   handle_update sample_cfg (telegram_update (js ''group'') (js ''@BotName hello'')) =
     Dispatch (JNum 42) (JNum 7) (trim ([] @ js '' hello'')) (JNum 1) \<and>
   trim ([] @ js '' hello'') = js ''hello'' \<and>
   api_log (webhook sample_cfg sample_env (world_of [])
              (telegram_update (js ''group'') (js ''@BotName hello''))) =
     [ThreadsCreate, MessagesCreate (JStr (js ''thread_new'')) (js ''user'') (js ''hello''),
      RunsCreateAndPoll (JStr (js ''thread_new'')) (js ''asst_1''),
      MessagesList (JStr (js ''thread_new'')) 5] \<and>
   (\<nexists>a b. js ''hello there'' = a @ mention_of sample_cfg @ b) \<and>
   handle_update sample_cfg (telegram_update (js ''group'') (js ''hello there'')) = Skip \<and>
   webhook sample_cfg sample_env (world_of []) (telegram_update (js ''group'') (js ''hello there''))
     = (world_of [])\<lparr>responses := [200]\<rparr>"
proof -
  let ?b = "telegram_update (js ''group'') (js ''@BotName hello'')"
  let ?c = "telegram_update (js ''group'') (js ''hello there'')"
  have a: "get_prop (opt_prop ?b (js ''message'')) (js ''text'') = JStr (js ''@BotName hello'')"
    by (simp add: telegram_update_def opt_prop_def)
  have a': "get_prop (opt_prop ?c (js ''message'')) (js ''text'') = JStr (js ''hello there'')"
    by (simp add: telegram_update_def opt_prop_def)
  have b: "js ''@BotName hello'' \<noteq> []" and b': "js ''hello there'' \<noteq> []" by simp_all
  have c: "\<not> nullish (get_prop (opt_prop ?b (js ''message'')) (js ''chat''))"
    and c': "\<not> nullish (get_prop (opt_prop ?c (js ''message'')) (js ''chat''))"
    by (simp_all add: telegram_update_def opt_prop_def)
  have d: "get_prop (get_prop (opt_prop ?b (js ''message'')) (js ''chat'')) (js ''type'')
      \<noteq> JStr (js ''private'')"
    and d': "get_prop (get_prop (opt_prop ?c (js ''message'')) (js ''chat'')) (js ''type'')
      \<noteq> JStr (js ''private'')"
    by (simp_all add: telegram_update_def opt_prop_def)
  have n: "\<not> is_ws (last (BOT_USERNAME sample_cfg))"
    by (simp add: sample_cfg_def js_def is_ws_def)
  then have n': "BOT_USERNAME sample_cfg = [] \<or> \<not> is_ws (last (BOT_USERNAME sample_cfg))" ..
  have e: "js ''@BotName hello'' = [] @ mention_of sample_cfg @ js '' hello''"
    by (simp add: mention_of_def sample_cfg_def js_def)
  have f: "trim ([] @ js '' hello'') = js ''hello''"
    by (simp add: js_def trim_def is_ws_def)
  have least: "\<forall>a' b'. s = a' @ mention_of sample_cfg @ b' \<longrightarrow> length ([]::nat list) \<le> length a'"
    for s by simp
  have "\<not> js_includes (js ''hello there'') (mention_of sample_cfg)"
    by (simp add: mention_of_def sample_cfg_def js_def)
  then have h: "\<nexists>a b. js ''hello there'' = a @ mention_of sample_cfg @ b"
    by (simp add: js_includes_iff)
  note t = group_mention_filter [OF refl a b c d refl refl refl,
      where cfg = sample_cfg and e = sample_env and w = "world_of []",
      THEN conjunct2, THEN conjunct2, THEN conjunct2, THEN conjunct2, rule_format,
      of "[]" "js '' hello''"]
  have 1: "handle_update sample_cfg ?b =
      Dispatch (JNum 42) (JNum 7) (trim ([] @ js '' hello'')) (JNum 1)"
    using t [OF conjI [OF n' conjI [OF e least]], THEN conjunct1]
    by (simp add: telegram_update_def opt_prop_def)
  from 1 f have "handle_update sample_cfg ?b = Dispatch (JNum 42) (JNum 7) (js ''hello'') (JNum 1)"
    by simp
  note 3 = sample_webhook_log [OF this]
  from group_mention_filter [OF refl a' b' c' d' refl refl refl,
      where cfg = sample_cfg and e = sample_env and w = "world_of []"] h
  have 2: "handle_update sample_cfg ?c = Skip \<and>
      webhook sample_cfg sample_env (world_of []) ?c = (world_of [])\<lparr>responses := [200]\<rparr>"
    by (simp add: world_of_def)
  from a b d n e f h 1 2 3 show ?thesis by blast
qed

text \<open>
  C10. Outside private chats the handler calls the assistant service exactly when
  \<open>@BOT_USERNAME\<close> occurs somewhere in the text, whatever follows or precedes it, and
  otherwise does nothing beyond its acknowledgement; the user turn it appends to the
  session is the text without the first occurrence, trimmed, so later occurrences
  stay. The bot name is taken not to end with a whitespace character.
\<close>

theorem mention_is_substring:
  assumes msg: "message = opt_prop body (js ''message'')"
    and rawtext: "get_prop message (js ''text'') = JStr raw"
    and ne: "raw \<noteq> []"
    and chat: "\<not> nullish (get_prop message (js ''chat''))"
    and group: "get_prop (get_prop message (js ''chat'')) (js ''type'') \<noteq> JStr (js ''private'')"
    and name: "BOT_USERNAME cfg = [] \<or> \<not> is_ws (last (BOT_USERNAME cfg))"
    and cid: "chatId = get_prop (get_prop message (js ''chat'')) (js ''id'')"
    and uid: "userId = opt_prop (get_prop message (js ''from'')) (js ''id'')"
    and acked: "w0 = w\<lparr>responses := responses w @ [200]\<rparr>"
  shows "((\<exists>t. handle_update cfg body =
              Dispatch (get_prop (get_prop message (js ''chat'')) (js ''id''))
                (opt_prop (get_prop message (js ''from'')) (js ''id'')) t
                (get_prop message (js ''message_id''))) \<longleftrightarrow>
          (\<exists>a b. raw = a @ mention_of cfg @ b)) \<and>
         (handle_update cfg body = Skip \<longleftrightarrow> (\<nexists>a b. raw = a @ mention_of cfg @ b)) \<and>
         (\<forall>a b. raw = a @ mention_of cfg @ b \<and>
                (\<forall>a' b'. raw = a' @ mention_of cfg @ b' \<longrightarrow> length a \<le> length a') \<longrightarrow>
            handle_update cfg body =
              Dispatch (get_prop (get_prop message (js ''chat'')) (js ''id''))
                (opt_prop (get_prop message (js ''from'')) (js ''id''))
                (trim (a @ b))
                (get_prop message (js ''message_id''))) \<and>
         (api_log (webhook cfg e w body) \<noteq> api_log w \<longleftrightarrow>
            (\<exists>a b. raw = a @ mention_of cfg @ b)) \<and>
         (api_log (index_webhook cfg e w body) \<noteq> api_log w \<longleftrightarrow>
            (\<exists>a b. raw = a @ mention_of cfg @ b)) \<and>
         ((\<nexists>a b. raw = a @ mention_of cfg @ b) \<longrightarrow>
            webhook cfg e w body = w0 \<and> index_webhook cfg e w body = w0) \<and>
         (\<forall>a b. raw = a @ mention_of cfg @ b \<and>
                (\<forall>a' b'. raw = a' @ mention_of cfg @ b' \<longrightarrow> length a \<le> length a') \<longrightarrow>
            (\<forall>h w1. getOrCreateThread e w0 chatId userId = (Inr h, w1) \<longrightarrow>
               (\<exists>rest. api_log (webhook cfg e w body) =
                         api_log w1 @ MessagesCreate h (js ''user'') (trim (a @ b)) # rest \<and>
                  (rest = [] \<or> rest = [RunsCreateAndPoll h (ASSISTANT_ID cfg)] \<or>
                   rest = [RunsCreateAndPoll h (ASSISTANT_ID cfg), MessagesList h 5]))) \<and>
            (\<forall>h w1. index_getOrCreateThread e w0 chatId userId = (Inr h, w1) \<longrightarrow>
               (\<exists>rest. api_log (index_webhook cfg e w body) =
                         api_log w1 @ MessagesCreate h (js ''user'') (trim (a @ b)) # rest \<and>
                  (rest = [] \<or> rest = [RunsCreateAndPoll h (ASSISTANT_ID cfg)] \<or>
                   rest = [RunsCreateAndPoll h (ASSISTANT_ID cfg), MessagesList h 5]))))"
proof -
  note hu = handle_update_group [OF msg rawtext ne chat group, of cfg]
  have first: "handle_update cfg body =
        Dispatch chatId userId (trim (a @ b)) (get_prop message (js ''message_id''))"
    if "raw = a @ mention_of cfg @ b"
      and "\<forall>a' b'. raw = a' @ mention_of cfg @ b' \<longrightarrow> length a \<le> length a'" for a b
    using hu(2) [OF name that] cid uid by simp
  have logs: "(\<forall>h w1. getOrCreateThread e w0 chatId userId = (Inr h, w1) \<longrightarrow>
               (\<exists>rest. api_log (webhook cfg e w body) =
                         api_log w1 @ MessagesCreate h (js ''user'') (trim (a @ b)) # rest \<and>
                  (rest = [] \<or> rest = [RunsCreateAndPoll h (ASSISTANT_ID cfg)] \<or>
                   rest = [RunsCreateAndPoll h (ASSISTANT_ID cfg), MessagesList h 5]))) \<and>
            (\<forall>h w1. index_getOrCreateThread e w0 chatId userId = (Inr h, w1) \<longrightarrow>
               (\<exists>rest. api_log (index_webhook cfg e w body) =
                         api_log w1 @ MessagesCreate h (js ''user'') (trim (a @ b)) # rest \<and>
                  (rest = [] \<or> rest = [RunsCreateAndPoll h (ASSISTANT_ID cfg)] \<or>
                   rest = [RunsCreateAndPoll h (ASSISTANT_ID cfg), MessagesList h 5])))"
    if "raw = a @ mention_of cfg @ b"
      and "\<forall>a' b'. raw = a' @ mention_of cfg @ b' \<longrightarrow> length a \<le> length a'" for a b
    using webhook_forwards [OF first [OF that], of e w]
      index_webhook_forwards [OF first [OF that], of e w] acked
    by simp
  show ?thesis
  proof (cases "\<exists>a b. raw = a @ mention_of cfg @ b")
    case True
    from hu(3) [OF name True] cid uid
    have d: "handle_update cfg body =
        Dispatch chatId userId (trim (replace (trim raw) (mention_of cfg) []))
          (get_prop message (js ''message_id''))"
      by simp
    note calls = webhook_calls [OF d, of e w]
    from d cid uid True first logs calls show ?thesis by auto
  next
    case False
    from hu(1) [OF False] have s: "handle_update cfg body = Skip" .
    then have "webhook cfg e w body = w0" "index_webhook cfg e w body = w0"
      using acked by (simp_all add: webhook_def index_webhook_def webhook_with_skip)
    with s False acked show ?thesis by auto
  qed
qed

theorem mention_is_substring_witness:
  "get_prop (opt_prop (telegram_update (js ''group'') (js ''@BotNameX hi'')) (js ''message''))
     (js ''text'') = JStr (js ''@BotNameX hi'') \<and>
   \<not> is_ws (last (BOT_USERNAME sample_cfg)) \<and>
   js ''@BotNameX hi'' = [] @ mention_of sample_cfg @ js ''X hi'' \<and>
   handle_update sample_cfg (telegram_update (js ''group'') (js ''@BotNameX hi'')) =
     Dispatch (JNum 42) (JNum 7) (trim ([] @ js ''X hi'')) (JNum 1) \<and>
   trim ([] @ js ''X hi'') = js ''X hi'' \<and>
   api_log (webhook sample_cfg sample_env (world_of [])
              (telegram_update (js ''group'') (js ''@BotNameX hi''))) =
     [ThreadsCreate, MessagesCreate (JStr (js ''thread_new'')) (js ''user'') (js ''X hi''),
      RunsCreateAndPoll (JStr (js ''thread_new'')) (js ''asst_1''),
      MessagesList (JStr (js ''thread_new'')) 5] \<and>
   api_log (webhook sample_cfg sample_env (world_of [])
              (telegram_update (js ''group'') (js ''@BotNameX hi''))) \<noteq> api_log (world_of []) \<and>
   js ''@BotName @BotName hi'' = [] @ mention_of sample_cfg @ js '' @BotName hi'' \<and>
   handle_update sample_cfg (telegram_update (js ''group'') (js ''@BotName @BotName hi'')) =
     Dispatch (JNum 42) (JNum 7) (trim ([] @ js '' @BotName hi'')) (JNum 1) \<and>
   trim ([] @ js '' @BotName hi'') = js ''@BotName hi'' \<and>
   api_log (webhook sample_cfg sample_env (world_of [])
              (telegram_update (js ''group'') (js ''@BotName @BotName hi''))) =
     [ThreadsCreate, MessagesCreate (JStr (js ''thread_new'')) (js ''user'') (js ''@BotName hi''),
      RunsCreateAndPoll (JStr (js ''thread_new'')) (js ''asst_1''),
      MessagesList (JStr (js ''thread_new'')) 5]"
proof -
  let ?b = "telegram_update (js ''group'') (js ''@BotNameX hi'')"
  let ?c = "telegram_update (js ''group'') (js ''@BotName @BotName hi'')"
  have a: "get_prop (opt_prop ?b (js ''message'')) (js ''text'') = JStr (js ''@BotNameX hi'')"
    by (simp add: telegram_update_def opt_prop_def)
  have a': "get_prop (opt_prop ?c (js ''message'')) (js ''text'') = JStr (js ''@BotName @BotName hi'')"
    by (simp add: telegram_update_def opt_prop_def)
  have b: "js ''@BotNameX hi'' \<noteq> []" and b': "js ''@BotName @BotName hi'' \<noteq> []" by simp_all
  have c: "\<not> nullish (get_prop (opt_prop ?b (js ''message'')) (js ''chat''))"
    and c': "\<not> nullish (get_prop (opt_prop ?c (js ''message'')) (js ''chat''))"
    by (simp_all add: telegram_update_def opt_prop_def)
  have d: "get_prop (get_prop (opt_prop ?b (js ''message'')) (js ''chat'')) (js ''type'')
      \<noteq> JStr (js ''private'')"
    and d': "get_prop (get_prop (opt_prop ?c (js ''message'')) (js ''chat'')) (js ''type'')
      \<noteq> JStr (js ''private'')"
    by (simp_all add: telegram_update_def opt_prop_def)
  have n: "\<not> is_ws (last (BOT_USERNAME sample_cfg))"
    by (simp add: sample_cfg_def js_def is_ws_def)
  then have n': "BOT_USERNAME sample_cfg = [] \<or> \<not> is_ws (last (BOT_USERNAME sample_cfg))" ..
  have e: "js ''@BotNameX hi'' = [] @ mention_of sample_cfg @ js ''X hi''"
    and e': "js ''@BotName @BotName hi'' = [] @ mention_of sample_cfg @ js '' @BotName hi''"
    by (simp_all add: mention_of_def sample_cfg_def js_def)
  have f: "trim ([] @ js ''X hi'') = js ''X hi''"
    and f': "trim ([] @ js '' @BotName hi'') = js ''@BotName hi''"
    by (simp_all add: js_def trim_def is_ws_def)
  have least: "\<forall>a' b'. s = a' @ mention_of sample_cfg @ b' \<longrightarrow> length ([]::nat list) \<le> length a'"
    for s by simp
  note full = mention_is_substring [OF refl a b c d n' refl refl refl,
      where e = sample_env and w = "world_of []"]
  note t = full [THEN conjunct2, THEN conjunct2, THEN conjunct1, rule_format,
      of "[]" "js ''X hi''"]
  have 1: "handle_update sample_cfg ?b = Dispatch (JNum 42) (JNum 7) (trim ([] @ js ''X hi'')) (JNum 1)"
    using t [OF conjI [OF e least]] by (simp add: telegram_update_def opt_prop_def)
  from e have occ: "\<exists>a b. js ''@BotNameX hi'' = a @ mention_of sample_cfg @ b" by blast
  from full [THEN conjunct2, THEN conjunct2, THEN conjunct2, THEN conjunct1] occ
  have 3: "api_log (webhook sample_cfg sample_env (world_of []) ?b) \<noteq> api_log (world_of [])"
    by blast
  note t' = mention_is_substring [OF refl a' b' c' d' n' refl refl refl,
      where e = sample_env and w = "world_of []",
      THEN conjunct2, THEN conjunct2, THEN conjunct1, rule_format,
      of "[]" "js '' @BotName hi''"]
  have 2: "handle_update sample_cfg ?c = Dispatch (JNum 42) (JNum 7) (trim ([] @ js '' @BotName hi'')) (JNum 1)"
    using t' [OF conjI [OF e' least]] by (simp add: telegram_update_def opt_prop_def)
  from 1 f have "handle_update sample_cfg ?b = Dispatch (JNum 42) (JNum 7) (js ''X hi'') (JNum 1)"
    by simp
  note 4 = sample_webhook_log [OF this]
  from 2 f' have "handle_update sample_cfg ?c =
      Dispatch (JNum 42) (JNum 7) (js ''@BotName hi'') (JNum 1)"
    by simp
  note 5 = sample_webhook_log [OF this]
  from a n e f e' f' 1 2 3 4 5 show ?thesis by blast
qed

section \<open>Loading the store\<close>

text \<open>
  C7. The start-up block yields the empty object when the file is missing and when
  \<open>JSON.parse\<close> rejects its content; nothing is thrown. The versioned program removes
  the file first, so it always starts from the empty object.
\<close>

theorem load_threads_lossy:
  "load_threads JSON_parse Missing = JObj [] \<and>
   (JSON_parse s = None \<longrightarrow> load_threads JSON_parse (Content s) = JObj []) \<and>
   startup_threads JSON_parse f = JObj []"
  by (simp add: load_threads_def startup_threads_def unlink_if_exists_def existsSync_def
      readFileSync_def)

theorem load_threads_lossy_witness:
  "sample_parse (js ''{broken'') = None \<and>
   load_threads sample_parse (Content (js ''{broken'')) = JObj [] \<and>
   load_threads sample_parse Missing = JObj []"
proof -
  have "sample_parse (js ''{broken'') = None" by (simp add: sample_parse_def)
  with load_threads_lossy [of sample_parse "js ''{broken''"] show ?thesis by simp
qed

section \<open>Starting the module\<close>

text \<open>
  C9. With the required environment variables set, the evaluation of \<open>src/index.js\<close>
  stops at line 75 with a \<open>ReferenceError\<close>: \<open>text\<close> is bound only inside the webhook
  handler. Without them the process exits at the validation block. In neither case is
  \<open>app.listen\<close> reached. The versioned program, which has no such statement, reaches it.
\<close>

theorem index_js_raises:
  "run_module True index_js = ReferenceError ''text'' 75 \<and>
   run_module False index_js = Exited 1 \<and>
   run_module True versioned_js = Completed True"
  by (simp add: run_module_def index_js_def versioned_js_def globals_def unbound_def
      env_names_def required_names_def)

end
